theory Spec2Isabelle
  imports Main
begin

section \<open>Strings, errors and responses\<close>

text \<open>
  A JavaScript string is a list of units. A unit is an ordinary character, or one opaque
  block \<open>Blob j\<close> standing for the compact serialisation of the signed token \<open>j\<close>
  (base64url and HMAC are not computed: a serialised token is one atomic symbol, and
  the libraries that parse it read \<open>j\<close> back). Header values read with
  \<^verbatim>\<open>headers.get\<close> hold code points 0 to 255, one per \<^typ>\<open>char\<close>.
\<close>

datatype 'j jchar = Chr char | Blob 'j

type_synonym 'j jstring = "'j jchar list"

abbreviation lit :: "string \<Rightarrow> 'j jstring" where
  "lit s \<equiv> map Chr s"

text \<open>\<^verbatim>\<open>s.startsWith(p)\<close> and \<^verbatim>\<open>s.substring(n)\<close>.\<close>

definition startsWith :: "'a list \<Rightarrow> 'a list \<Rightarrow> bool" where
  "startsWith s p = (take (length p) s = p)"

definition substring :: "'a list \<Rightarrow> nat \<Rightarrow> 'a list" where
  "substring s n = drop n s"

text \<open>
  \<^verbatim>\<open>s.trim()\<close>: the white space and line terminators of ECMAScript among the code
  points 0 to 255 are TAB, LF, VT, FF, CR, SPACE and NBSP.
\<close>

definition is_js_space :: "'j jchar \<Rightarrow> bool" where
  "is_js_space u = (case u of
      Chr c \<Rightarrow> c \<in> set [CHR 0x09, CHR 0x0A, CHR 0x0B, CHR 0x0C, CHR 0x0D, CHR 0x20, CHR 0xA0]
    | Blob _ \<Rightarrow> False)"

definition trim :: "'j jstring \<Rightarrow> 'j jstring" where
  "trim s = rev (dropWhile is_js_space (rev (dropWhile is_js_space s)))"

text \<open>\<^verbatim>\<open>s.split(',')[0]\<close>: the part of \<open>s\<close> before its first comma.\<close>

definition split_comma_first :: "'j jstring \<Rightarrow> 'j jstring" where
  "split_comma_first s = takeWhile (\<lambda>u. u \<noteq> Chr CHR '','') s"

text \<open>\<^verbatim>\<open>xs.join(sep)\<close>.\<close>

fun join :: "string \<Rightarrow> string list \<Rightarrow> string" where
  "join sep [] = []"
| "join sep [x] = x"
| "join sep (x # y # ys) = x @ sep @ join sep (y # ys)"

text \<open>A string or absent value is truthy when it is present and not empty.\<close>

definition truthy :: "'a list option \<Rightarrow> bool" where
  "truthy v = (case v of None \<Rightarrow> False | Some s \<Rightarrow> s \<noteq> [])"

text \<open>A thrown \<^verbatim>\<open>Error\<close>: its \<^verbatim>\<open>name\<close> and its \<^verbatim>\<open>message\<close>.\<close>

datatype js_error = JsError (err_name: string) (err_message: string)

text \<open>
  \<^verbatim>\<open>new Date(ms).toISOString()\<close> is kept symbolic: \<open>ISO_8601 ms\<close> is the ISO-8601
  rendering of the time value \<open>ms\<close>. A time value outside the range of \<^verbatim>\<open>Date\<close>
  gives an invalid date, on which \<^verbatim>\<open>toISOString\<close> throws a \<^verbatim>\<open>RangeError\<close>.
\<close>

datatype iso_string = ISO_8601 int

definition toISOString :: "int \<Rightarrow> js_error + iso_string" where
  "toISOString ms =
     (if - 8640000000000000 \<le> ms \<and> ms \<le> 8640000000000000 then Inr (ISO_8601 ms)
      else Inl (JsError ''RangeError'' ''Invalid time value''))"

text \<open>The details object of a 429 response, and the value of a response header.\<close>

record rl_details =
  det_limit :: int
  det_remaining :: int
  det_resetTime :: iso_string
  det_retryAfter :: int

datatype hval = NumText int

text \<open>
  A response: its status, its JSON body and its headers. The error envelope is
  \<^verbatim>\<open>{success: false, error, code, details?}\<close>; any other body is opaque.
  \<open>NumText n\<close> is \<^verbatim>\<open>n.toString()\<close>.
\<close>

datatype body = ErrorEnvelope string int "rl_details option" | Payload string

record response =
  status :: int
  body :: body
  res_headers :: "string \<rightharpoonup> hval"

text \<open>response.js\<close>

definition errorResponse :: "string \<Rightarrow> int \<Rightarrow> rl_details option \<Rightarrow> response" where
  "errorResponse error code details =
     \<lparr>status = code, body = ErrorEnvelope error code details, res_headers = Map.empty\<rparr>"

definition unauthorizedResponse :: "string \<Rightarrow> response" where
  "unauthorizedResponse message = errorResponse message 401 None"

definition forbiddenResponse :: "string \<Rightarrow> response" where
  "forbiddenResponse message = errorResponse message 403 None"

definition tooManyRequestsResponse :: "string \<Rightarrow> rl_details option \<Rightarrow> response" where
  "tooManyRequestsResponse message details = errorResponse message 429 details"

section \<open>Requests\<close>

record user =
  u_id :: string
  u_name :: string
  u_email :: string
  u_role :: string
  u_createdAt :: int
  u_updatedAt :: int

text \<open>
  A request: its method, the path of its URL, its headers by lower-case name, and the
  \<^verbatim>\<open>user\<close> property the authentication middleware attaches.
\<close>

record 'j request =
  req_method :: string
  pathname :: string
  headers :: "string \<rightharpoonup> 'j jstring"
  req_user :: "user option"

section \<open>Rate limiting (lib/middleware/rateLimit.js)\<close>

record rl_entry =
  count :: int
  resetTime :: int

type_synonym 'j rl_store = "'j jstring \<rightharpoonup> rl_entry"

text \<open>
  The module's configuration, read from the environment: \<^verbatim>\<open>MAX_REQUESTS\<close> and
  \<^verbatim>\<open>WINDOW_MS\<close> as the integers \<^verbatim>\<open>parseInt\<close> gives, and \<^verbatim>\<open>NODE_ENV\<close>.
\<close>

record rl_env =
  MAX_REQUESTS :: int
  WINDOW_MS :: int
  NODE_ENV :: "string option"

definition getClientIP :: "'j request \<Rightarrow> 'j jstring" where
  "getClientIP request =
     (let forwarded = headers request ''x-forwarded-for'';
          realIP = headers request ''x-real-ip'';
          cloudflareIP = headers request ''cf-connecting-ip''
      in if truthy forwarded then trim (split_comma_first (the forwarded))
         else if truthy cloudflareIP then the cloudflareIP
         else if truthy realIP then the realIP
         else lit ''unknown'')"

text \<open>
  \<^verbatim>\<open>getRateLimitInfo\<close> at the clock reading \<open>now\<close>: the entry of \<open>ip\<close>, created or
  reset when it is missing or its window has passed, and the store after that.
\<close>

definition getRateLimitInfo ::
  "rl_env \<Rightarrow> int \<Rightarrow> 'j jstring \<Rightarrow> 'j rl_store \<Rightarrow> rl_entry \<times> 'j rl_store" where
  "getRateLimitInfo env now ip requestCounts =
     (case requestCounts ip of
        None \<Rightarrow>
          (let data = \<lparr>count = 0, resetTime = now + WINDOW_MS env\<rparr>
           in (data, requestCounts(ip \<mapsto> data)))
      | Some data0 \<Rightarrow>
          if now > resetTime data0 then
            (let data = \<lparr>count = 0, resetTime = now + WINDOW_MS env\<rparr>
             in (data, requestCounts(ip \<mapsto> data)))
          else (data0, requestCounts))"

record rl_decision =
  allowed :: bool
  remaining :: int
  d_resetTime :: int
  limit :: int

text \<open>
  \<^verbatim>\<open>checkRateLimit\<close>: \<^verbatim>\<open>data.count++\<close> writes through to the entry held in the
  store.
\<close>

definition checkRateLimit ::
  "rl_env \<Rightarrow> int \<Rightarrow> 'j jstring \<Rightarrow> 'j rl_store \<Rightarrow> rl_decision \<times> 'j rl_store" where
  "checkRateLimit env now ip requestCounts =
     (let (data, st) = getRateLimitInfo env now ip requestCounts;
          ok = (count data < MAX_REQUESTS env);
          data' = (if ok then data\<lparr>count := count data + 1\<rparr> else data);
          st' = (if ok then st(ip \<mapsto> data') else st)
      in (\<lparr>allowed = ok,
           remaining = max 0 (MAX_REQUESTS env - count data'),
           d_resetTime = resetTime data',
           limit = MAX_REQUESTS env\<rparr>, st'))"

text \<open>\<^verbatim>\<open>Math.ceil((resetTime - Date.now()) / 1000)\<close>.\<close>

definition getSecondsUntilReset :: "int \<Rightarrow> int \<Rightarrow> int" where
  "getSecondsUntilReset now rt = - ((- (rt - now)) div 1000)"

text \<open>
  A route handler is a function from the request to the response it resolves to, or to
  the error it rejects with.
\<close>

type_synonym 'j handler = "'j request \<Rightarrow> js_error + response"

definition set_header :: "response \<Rightarrow> string \<Rightarrow> hval \<Rightarrow> response" where
  "set_header response name v = response\<lparr>res_headers := (res_headers response)(name \<mapsto> v)\<rparr>"

definition is_localhost_dev :: "rl_env \<Rightarrow> 'j jstring \<Rightarrow> bool" where
  "is_localhost_dev env ip =
     (NODE_ENV env = Some ''development'' \<and> (ip = lit ''::1'' \<or> ip = lit ''127.0.0.1''))"

text \<open>
  \<^verbatim>\<open>withRateLimit\<close>. \<open>now\<close> is the clock read by \<^verbatim>\<open>getRateLimitInfo\<close>, \<open>now2\<close>
  the later reading of \<^verbatim>\<open>getSecondsUntilReset\<close>. The result is what the returned
  promise settles to, with the store the call leaves behind.
\<close>

definition withRateLimit ::
  "rl_env \<Rightarrow> int \<Rightarrow> int \<Rightarrow> 'j request \<Rightarrow> 'j handler \<Rightarrow> 'j rl_store
     \<Rightarrow> (js_error + response) \<times> 'j rl_store" where
  "withRateLimit env now now2 request handler requestCounts =
     (let ip = getClientIP request in
      if is_localhost_dev env ip then (handler request, requestCounts)
      else
        (let (d, st) = checkRateLimit env now ip requestCounts in
         if \<not> allowed d then
           (let retryAfter = getSecondsUntilReset now2 (d_resetTime d) in
            case toISOString (d_resetTime d) of
              Inl e \<Rightarrow> (Inl e, st)
            | Inr resetIso \<Rightarrow>
                (Inr (tooManyRequestsResponse ''Too many requests. Please try again later.''
                   (Some \<lparr>det_limit = MAX_REQUESTS env, det_remaining = 0,
                          det_resetTime = resetIso, det_retryAfter = retryAfter\<rparr>)), st))
         else
           (case handler request of
              Inl e \<Rightarrow> (Inl e, st)
            | Inr response \<Rightarrow>
                (Inr (set_header
                       (set_header
                         (set_header response ''X-RateLimit-Limit'' (NumText (limit d)))
                         ''X-RateLimit-Remaining'' (NumText (remaining d)))
                       ''X-RateLimit-Reset'' (NumText (d_resetTime d))), st))))"

text \<open>
  The function \<^verbatim>\<open>createRateLimit(maxRequests, windowMs)\<close> returns, run on its own
  store \<^verbatim>\<open>customRequestCounts\<close>.
\<close>

definition createRateLimit ::
  "int \<Rightarrow> int \<Rightarrow> rl_env \<Rightarrow> int \<Rightarrow> int \<Rightarrow> 'j request \<Rightarrow> 'j handler \<Rightarrow> 'j rl_store
     \<Rightarrow> (js_error + response) \<times> 'j rl_store" where
  "createRateLimit maxRequests windowMs env now now2 request handler customRequestCounts =
     (let ip = getClientIP request in
      if is_localhost_dev env ip then (handler request, customRequestCounts)
      else
        (let fresh = \<lparr>count = 0, resetTime = now + windowMs\<rparr>;
             (data, st) =
               (case customRequestCounts ip of
                  None \<Rightarrow> (fresh, customRequestCounts(ip \<mapsto> fresh))
                | Some data0 \<Rightarrow>
                    if now > resetTime data0 then (fresh, customRequestCounts(ip \<mapsto> fresh))
                    else (data0, customRequestCounts))
         in if \<not> count data < maxRequests then
              (let retryAfter = getSecondsUntilReset now2 (resetTime data) in
               case toISOString (resetTime data) of
                 Inl e \<Rightarrow> (Inl e, st)
               | Inr resetIso \<Rightarrow>
                   (Inr (tooManyRequestsResponse ''Too many requests. Please try again later.''
                      (Some \<lparr>det_limit = maxRequests, det_remaining = 0,
                             det_resetTime = resetIso, det_retryAfter = retryAfter\<rparr>)), st))
            else
              (let data' = data\<lparr>count := count data + 1\<rparr>;
                   st' = st(ip \<mapsto> data')
               in case handler request of
                    Inl e \<Rightarrow> (Inl e, st')
                  | Inr response \<Rightarrow>
                      (Inr (set_header
                             (set_header
                               (set_header response ''X-RateLimit-Limit'' (NumText maxRequests))
                               ''X-RateLimit-Remaining'' (NumText (maxRequests - count data')))
                             ''X-RateLimit-Reset'' (NumText (resetTime data'))), st'))))"

text \<open>
  Consecutive \<^verbatim>\<open>checkRateLimit\<close> calls for one key, one per clock reading of the
  list: the decisions in order, and the store after the last call.
\<close>

fun admits ::
  "rl_env \<Rightarrow> 'j jstring \<Rightarrow> int list \<Rightarrow> 'j rl_store \<Rightarrow> rl_decision list \<times> 'j rl_store" where
  "admits env ip [] st = ([], st)"
| "admits env ip (t # ts) st =
     (let (d, st1) = checkRateLimit env t ip st;
          (ds, st2) = admits env ip ts st1
      in (d # ds, st2))"

text \<open>The window of a key is over at \<open>now\<close>: it has no entry, or \<open>now\<close> is past its reset time.\<close>

definition window_over :: "'j rl_store \<Rightarrow> 'j jstring \<Rightarrow> int \<Rightarrow> bool" where
  "window_over st ip now = (case st ip of None \<Rightarrow> True | Some d \<Rightarrow> now > resetTime d)"

section \<open>Tokens (lib/jwt.js and the two JWT libraries)\<close>

text \<open>
  The claim set of a token. A claim is absent (\<open>None\<close>) or present; \<^verbatim>\<open>iat\<close>,
  \<^verbatim>\<open>exp\<close> and \<^verbatim>\<open>nbf\<close> are in seconds.
\<close>

record claims =
  c_id :: "string option"
  c_sub :: "string option"
  c_email :: "string option"
  c_role :: "string option"
  c_roles :: "string option"
  c_type :: "string option"
  c_iss :: "string option"
  c_aud :: "string option"
  c_iat :: "int option"
  c_exp :: "int option"
  c_nbf :: "int option"

text \<open>
  The signature is symbolic: \<open>HMAC k p\<close> is the tag computed with the secret \<open>k\<close>
  over the claim set \<open>p\<close>. A token verifies under \<open>k\<close> when its tag is the one
  computed with \<open>k\<close> over the claims it carries; a token whose payload was changed after
  signing, or that was signed with another secret, does not.
\<close>

datatype signature = HMAC string claims

datatype jws = JWS (payload: claims) (signature: signature)

type_synonym tstring = "jws jstring"

text \<open>A string is the compact serialisation of a token exactly when it is its block.\<close>

definition decode_compact :: "tstring \<Rightarrow> jws option" where
  "decode_compact t = (case t of [Blob j] \<Rightarrow> Some j | _ \<Rightarrow> None)"

text \<open>
  The environment of lib/jwt.js. The module throws when it is loaded unless both
  secrets are set, so its functions only run with non-empty secrets. The two expiry
  settings are the durations they denote, in seconds (\<^verbatim>\<open>'15m'\<close> is 900).
\<close>

record jwt_env =
  JWT_SECRET :: string
  JWT_REFRESH_SECRET :: string
  JWT_ACCESS_EXPIRES_IN :: int
  JWT_REFRESH_EXPIRES_IN :: int

text \<open>
  \<^verbatim>\<open>jwt.sign(payload, secret, {expiresIn, issuer, audience})\<close> of jsonwebtoken at the
  clock reading \<open>now\<close> (milliseconds): it adds \<^verbatim>\<open>iat\<close>, \<^verbatim>\<open>exp\<close>, \<^verbatim>\<open>aud\<close> and
  \<^verbatim>\<open>iss\<close>, and signs.
\<close>

definition jwt_sign :: "int \<Rightarrow> claims \<Rightarrow> string \<Rightarrow> int \<Rightarrow> string \<Rightarrow> string \<Rightarrow> tstring" where
  "jwt_sign now p secret expiresIn issuer audience =
     (let iat = now div 1000;
          p' = p\<lparr>c_iat := Some iat, c_exp := Some (iat + expiresIn),
                 c_aud := Some audience, c_iss := Some issuer\<rparr>
      in [Blob (JWS p' (HMAC secret p'))])"

text \<open>
  \<^verbatim>\<open>jwt.verify(token, secret, {issuer, audience})\<close> of jsonwebtoken: the signature,
  then \<^verbatim>\<open>nbf\<close>, \<^verbatim>\<open>exp\<close>, the audience and the issuer, in that order.
\<close>

definition jwt_verify :: "int \<Rightarrow> tstring \<Rightarrow> string \<Rightarrow> string \<Rightarrow> string \<Rightarrow> js_error + claims" where
  "jwt_verify now token secret issuer audience =
     (if token = [] then Inl (JsError ''JsonWebTokenError'' ''jwt must be provided'')
      else case decode_compact token of
        None \<Rightarrow> Inl (JsError ''JsonWebTokenError'' ''jwt malformed'')
      | Some j \<Rightarrow>
          (let p = payload j; clockTimestamp = now div 1000 in
           if signature j \<noteq> HMAC secret p then
             Inl (JsError ''JsonWebTokenError'' ''invalid signature'')
           else if (case c_nbf p of None \<Rightarrow> False | Some nbf \<Rightarrow> nbf > clockTimestamp) then
             Inl (JsError ''NotBeforeError'' ''jwt not active'')
           else if (case c_exp p of None \<Rightarrow> False | Some e \<Rightarrow> clockTimestamp \<ge> e) then
             Inl (JsError ''TokenExpiredError'' ''jwt expired'')
           else if c_aud p \<noteq> Some audience then
             Inl (JsError ''JsonWebTokenError'' (''jwt audience invalid. expected: '' @ audience))
           else if c_iss p \<noteq> Some issuer then
             Inl (JsError ''JsonWebTokenError'' (''jwt issuer invalid. expected: '' @ issuer))
           else Inr p))"

text \<open>
  \<^verbatim>\<open>jwtVerify(token, secret)\<close> of jose, called with no options: the signature, then
  \<^verbatim>\<open>nbf\<close> and \<^verbatim>\<open>exp\<close>. With no \<^verbatim>\<open>issuer\<close> or \<^verbatim>\<open>audience\<close> option it
  checks neither claim.
\<close>

definition jose_jwtVerify :: "int \<Rightarrow> tstring \<Rightarrow> string \<Rightarrow> js_error + claims" where
  "jose_jwtVerify now token secret =
     (case decode_compact token of
        None \<Rightarrow> Inl (JsError ''JWSInvalid'' ''Invalid Compact JWS'')
      | Some j \<Rightarrow>
          (let p = payload j; clock = now div 1000 in
           if signature j \<noteq> HMAC secret p then
             Inl (JsError ''JWSSignatureVerificationFailed'' ''signature verification failed'')
           else if (case c_nbf p of None \<Rightarrow> False | Some nbf \<Rightarrow> nbf > clock) then
             Inl (JsError ''JWTClaimValidationFailed'' ''nbf claim timestamp check failed'')
           else if (case c_exp p of None \<Rightarrow> False | Some e \<Rightarrow> e \<le> clock) then
             Inl (JsError ''JWTExpired'' ''exp claim timestamp check failed'')
           else Inr p))"

record identity =
  i_id :: string
  i_email :: string
  i_role :: string

definition no_claims :: claims where
  "no_claims = \<lparr>c_id = None, c_sub = None, c_email = None, c_role = None, c_roles = None,
                 c_type = None, c_iss = None, c_aud = None, c_iat = None, c_exp = None,
                 c_nbf = None\<rparr>"

definition generateAccessToken :: "jwt_env \<Rightarrow> int \<Rightarrow> identity \<Rightarrow> tstring" where
  "generateAccessToken env now p =
     jwt_sign now
       (no_claims\<lparr>c_id := Some (i_id p), c_email := Some (i_email p),
                  c_role := Some (i_role p), c_type := Some ''access''\<rparr>)
       (JWT_SECRET env) (JWT_ACCESS_EXPIRES_IN env) ''todo-api'' ''todo-app''"

definition generateRefreshToken :: "jwt_env \<Rightarrow> int \<Rightarrow> string \<Rightarrow> tstring" where
  "generateRefreshToken env now ident =
     jwt_sign now
       (no_claims\<lparr>c_id := Some ident, c_type := Some ''refresh''\<rparr>)
       (JWT_REFRESH_SECRET env) (JWT_REFRESH_EXPIRES_IN env) ''todo-api'' ''todo-app''"

text \<open>
  \<^verbatim>\<open>verifyAccessToken\<close>: the \<^verbatim>\<open>catch\<close> also receives the
  \<^verbatim>\<open>Error('Invalid token type')\<close> thrown inside the \<^verbatim>\<open>try\<close>, and rethrows it as
  it is, like every error that is neither a \<^verbatim>\<open>TokenExpiredError\<close> nor a
  \<^verbatim>\<open>JsonWebTokenError\<close>.
\<close>

definition verifyAccessToken :: "jwt_env \<Rightarrow> int \<Rightarrow> tstring \<Rightarrow> js_error + claims" where
  "verifyAccessToken env now token =
     (case (case jwt_verify now token (JWT_SECRET env) ''todo-api'' ''todo-app'' of
              Inl e \<Rightarrow> Inl e
            | Inr decoded \<Rightarrow>
                if c_type decoded \<noteq> Some ''access''
                then Inl (JsError ''Error'' ''Invalid token type'')
                else Inr decoded) of
        Inr decoded \<Rightarrow> Inr decoded
      | Inl error \<Rightarrow>
          if err_name error = ''TokenExpiredError'' then
            Inl (JsError ''Error'' ''Token has expired'')
          else if err_name error = ''JsonWebTokenError'' then
            Inl (JsError ''Error'' ''Invalid token'')
          else Inl error)"

definition verifyRefreshToken :: "jwt_env \<Rightarrow> int \<Rightarrow> tstring \<Rightarrow> js_error + claims" where
  "verifyRefreshToken env now token =
     (case (case jwt_verify now token (JWT_REFRESH_SECRET env) ''todo-api'' ''todo-app'' of
              Inl e \<Rightarrow> Inl e
            | Inr decoded \<Rightarrow>
                if c_type decoded \<noteq> Some ''refresh''
                then Inl (JsError ''Error'' ''Invalid token type'')
                else Inr decoded) of
        Inr decoded \<Rightarrow> Inr decoded
      | Inl error \<Rightarrow>
          if err_name error = ''TokenExpiredError'' then
            Inl (JsError ''Error'' ''Refresh token has expired'')
          else if err_name error = ''JsonWebTokenError'' then
            Inl (JsError ''Error'' ''Invalid refresh token'')
          else Inl error)"

definition extractTokenFromHeader :: "'j jstring option \<Rightarrow> 'j jstring option" where
  "extractTokenFromHeader authHeader =
     (if \<not> truthy authHeader \<or> \<not> startsWith (the authHeader) (lit ''Bearer '') then None
      else Some (substring (the authHeader) 7))"

section \<open>Authentication middleware (lib/middleware/auth.js)\<close>

text \<open>
  \<^verbatim>\<open>withAuth(request, handler, options)\<close>. \<open>findUnique\<close> is the identity store:
  \<^verbatim>\<open>prisma.user.findUnique\<close> by the \<^verbatim>\<open>id\<close> claim gives a user, nothing, or throws.
  \<open>roles\<close> is \<^verbatim>\<open>options.roles\<close>, absent by default. The handler's promise is
  returned without \<^verbatim>\<open>await\<close>, so what it settles to is the result, also when it
  rejects; the outer \<^verbatim>\<open>catch\<close> receives what the lookup throws.
\<close>

definition withAuth ::
  "jwt_env \<Rightarrow> int \<Rightarrow> (string option \<Rightarrow> js_error + user option) \<Rightarrow> jws request
     \<Rightarrow> jws handler \<Rightarrow> string list option \<Rightarrow> js_error + response" where
  "withAuth env now findUnique request handler roles =
     (let authHeader = headers request ''authorization'';
          token = extractTokenFromHeader authHeader
      in if \<not> truthy token then Inr (unauthorizedResponse ''No token provided. Please login.'')
         else
           (case verifyAccessToken env now (the token) of
              Inl error \<Rightarrow> Inr (unauthorizedResponse (err_message error))
            | Inr decoded \<Rightarrow>
                (case findUnique (c_id decoded) of
                   Inl error \<Rightarrow> Inr (unauthorizedResponse ''Authentication failed'')
                 | Inr None \<Rightarrow> Inr (unauthorizedResponse ''User not found. Please login again.'')
                 | Inr (Some u) \<Rightarrow>
                     if (case roles of None \<Rightarrow> False
                         | Some rs \<Rightarrow> length rs > 0 \<and> u_role u \<notin> set rs)
                     then Inr (forbiddenResponse
                                 (''Access denied. Required role: '' @ join '' or '' (the roles)))
                     else handler (request\<lparr>req_user := Some u\<rparr>))))"

section \<open>Edge middleware (middleware.js)\<close>

datatype route_type = Public | Protected | AdminOnly

definition ROUTE_CONFIG_public :: "string list" where
  "ROUTE_CONFIG_public = [''/api/auth/register'', ''/api/auth/login'', ''/api/auth/refresh'']"

definition ROUTE_CONFIG_protected :: "string list" where
  "ROUTE_CONFIG_protected = [''/api/tasks'', ''/api/tasks/.*'']"

definition ROUTE_CONFIG_adminOnly :: "string list" where
  "ROUTE_CONFIG_adminOnly = [''/api/users'', ''/api/users/.*'']"

text \<open>\<^verbatim>\<open>s.includes(sub)\<close>.\<close>

fun str_includes :: "string \<Rightarrow> string \<Rightarrow> bool" where
  "str_includes [] sub = (sub = [])"
| "str_includes (c # cs) sub = (startsWith (c # cs) sub \<or> str_includes cs sub)"

text \<open>
  \<^verbatim>\<open>new RegExp(`^${pattern}$`).test(path)\<close> for a pattern made of literal characters
  and of \<^verbatim>\<open>.\<close> and \<^verbatim>\<open>.*\<close>, which is what the route table holds. Without the
  \<^verbatim>\<open>s\<close> flag a dot matches any character but a line terminator.
\<close>

definition line_terminator :: "char \<Rightarrow> bool" where
  "line_terminator c = (c = CHR 0x0A \<or> c = CHR 0x0D)"

definition atom_matches :: "char \<Rightarrow> char \<Rightarrow> bool" where
  "atom_matches p c = (if p = CHR ''.'' then \<not> line_terminator c else c = p)"

fun regex_test :: "string \<Rightarrow> string \<Rightarrow> bool" where
  "regex_test [] s = (s = [])"
| "regex_test [p] [] = False"
| "regex_test (p # q # ps) [] = (p = CHR ''.'' \<and> q = CHR ''*'' \<and> regex_test ps [])"
| "regex_test [p] (c # cs) = (atom_matches p c \<and> cs = [])"
| "regex_test (p # q # ps) (c # cs) =
     (if p = CHR ''.'' \<and> q = CHR ''*'' then
        regex_test ps (c # cs) \<or> (\<not> line_terminator c \<and> regex_test (p # q # ps) cs)
      else atom_matches p c \<and> regex_test (q # ps) cs)"

definition matchesPattern :: "string \<Rightarrow> string list \<Rightarrow> bool" where
  "matchesPattern path patterns =
     list_ex (\<lambda>pattern. if str_includes pattern ''.*'' then regex_test pattern path
                         else path = pattern) patterns"

definition getRouteType :: "string \<Rightarrow> route_type" where
  "getRouteType path =
     (if matchesPattern path ROUTE_CONFIG_public then Public
      else if matchesPattern path ROUTE_CONFIG_adminOnly then AdminOnly
      else if matchesPattern path ROUTE_CONFIG_protected then Protected
      else Public)"

definition edgeErrorResponse :: "string \<Rightarrow> int \<Rightarrow> response" where
  "edgeErrorResponse message st =
     \<lparr>status = st, body = ErrorEnvelope message st None, res_headers = Map.empty\<rparr>"

text \<open>
  \<^verbatim>\<open>verifyTokenEdge\<close>: \<open>secret\<close> is \<^verbatim>\<open>process.env.JWT_SECRET || ''\<close>. Its
  \<^verbatim>\<open>catch\<close> rethrows.
\<close>

definition verifyTokenEdge :: "string \<Rightarrow> int \<Rightarrow> tstring \<Rightarrow> js_error + claims" where
  "verifyTokenEdge secret now token = jose_jwtVerify now token secret"

text \<open>\<^verbatim>\<open>a || b\<close> on strings that may be absent, and \<^verbatim>\<open>a || b || 'User'\<close>.\<close>

definition js_or :: "string option \<Rightarrow> string option \<Rightarrow> string option" where
  "js_or a b = (if truthy a then a else if truthy b then b else None)"

definition decoded_role :: "claims \<Rightarrow> string" where
  "decoded_role p =
     (if truthy (c_role p) then the (c_role p)
      else if truthy (c_roles p) then the (c_roles p)
      else ''User'')"

text \<open>
  The outcome of the edge middleware: \<open>Next r\<close> is \<^verbatim>\<open>NextResponse.next\<close>, the
  request \<open>r\<close> going on to its route; \<open>Respond\<close> answers it at the edge.
\<close>

datatype edge_result = Next "jws request" | Respond response

definition set_request_header :: "jws request \<Rightarrow> string \<Rightarrow> string option \<Rightarrow> jws request" where
  "set_request_header r name v =
     (if truthy v then r\<lparr>headers := (headers r)(name \<mapsto> lit (the v))\<rparr> else r)"

definition middleware :: "string \<Rightarrow> int \<Rightarrow> jws request \<Rightarrow> edge_result" where
  "middleware secret now request =
     (let routeType = getRouteType (pathname request) in
      if routeType = Public then Next request
      else
        (let authHeader = headers request ''authorization'' in
         if \<not> truthy authHeader \<or> \<not> startsWith (the authHeader) (lit ''Bearer '') then
           Respond (edgeErrorResponse ''No token provided. Please login.'' 401)
         else
           (let token = substring (the authHeader) 7 in
            case verifyTokenEdge secret now token of
              Inl err \<Rightarrow>
                Respond (edgeErrorResponse ''Invalid or expired token. Please login again.'' 401)
            | Inr p \<Rightarrow>
                (let decoded_id = js_or (c_id p) (c_sub p);
                     decoded_email = js_or (c_email p) None;
                     role = decoded_role p
                 in if routeType = AdminOnly \<and> role \<noteq> ''Admin'' then
                      Respond (edgeErrorResponse ''Access denied. Admin role required.'' 403)
                    else if req_method request = ''DELETE''
                            \<and> startsWith (pathname request) ''/api/tasks/''
                            \<and> role \<noteq> ''Admin'' then
                      Respond (edgeErrorResponse ''Access denied. Only Admin can delete tasks.'' 403)
                    else
                      Next (set_request_header
                             (set_request_header
                               (set_request_header request ''x-user-id'' decoded_id)
                               ''x-user-email'' decoded_email)
                             ''x-user-role'' (Some role))))))"

section \<open>Sample data\<close>

text \<open>Concrete environments, identities, requests and collaborators for the instances below.\<close>

definition sample_env :: jwt_env where
  "sample_env = \<lparr>JWT_SECRET = ''access-secret'', JWT_REFRESH_SECRET = ''refresh-secret'',
                 JWT_ACCESS_EXPIRES_IN = 900, JWT_REFRESH_EXPIRES_IN = 604800\<rparr>"

definition sample_shared_env :: jwt_env where
  "sample_shared_env = \<lparr>JWT_SECRET = ''one-secret'', JWT_REFRESH_SECRET = ''one-secret'',
                        JWT_ACCESS_EXPIRES_IN = 900, JWT_REFRESH_EXPIRES_IN = 604800\<rparr>"

definition sample_identity :: "string \<Rightarrow> identity" where
  "sample_identity ident = \<lparr>i_id = ident, i_email = ''ann@example.org'', i_role = ''User''\<rparr>"

definition sample_user :: user where
  "sample_user = \<lparr>u_id = ''u1'', u_name = ''Ann'', u_email = ''ann@example.org'',
                  u_role = ''User'', u_createdAt = 0, u_updatedAt = 0\<rparr>"

definition sample_request ::
  "string \<Rightarrow> string \<Rightarrow> (string \<times> jws jstring) list \<Rightarrow> jws request" where
  "sample_request m path hs =
     \<lparr>req_method = m, pathname = path, headers = map_of hs, req_user = None\<rparr>"

text \<open>An identity store that knows \<open>u1\<close>, fails on \<open>u2\<close> and finds nobody else.\<close>

definition sample_store :: "string option \<Rightarrow> js_error + user option" where
  "sample_store ident =
     (if ident = Some ''u1'' then Inr (Some sample_user)
      else if ident = Some ''u2'' then
        Inl (JsError ''PrismaClientInitializationError'' ''cannot reach the database'')
      else Inr None)"

definition sample_handler :: "jws handler" where
  "sample_handler r =
     Inr \<lparr>status = 200,
          body = Payload (case req_user r of None \<Rightarrow> ''anonymous'' | Some u \<Rightarrow> u_id u),
          res_headers = Map.empty\<rparr>"

definition sample_rl_env :: rl_env where
  "sample_rl_env = \<lparr>MAX_REQUESTS = 1, WINDOW_MS = 60000, NODE_ENV = Some ''production''\<rparr>"

text \<open>A token that carries its role under \<^verbatim>\<open>roles\<close> and has no \<^verbatim>\<open>role\<close> claim.\<close>

definition sample_roles_claims :: claims where
  "sample_roles_claims = no_claims\<lparr>c_id := Some ''u9'', c_roles := Some ''Admin''\<rparr>"

definition sample_roles_token :: tstring where
  "sample_roles_token = [Blob (JWS sample_roles_claims (HMAC ''access-secret'' sample_roles_claims))]"

text \<open>An access token of another issuer, signed with the same secret.\<close>

definition sample_foreign_token :: tstring where
  "sample_foreign_token =
     jwt_sign 0 (no_claims\<lparr>c_id := Some ''u1'', c_role := Some ''Admin'', c_type := Some ''access''\<rparr>)
       ''access-secret'' 900 ''another-api'' ''another-app''"

text \<open>A store in which the one request allowed to 192.0.2.1 has been used.\<close>

definition sample_counts :: "jws rl_store" where
  "sample_counts = [lit ''192.0.2.1'' \<mapsto> \<lparr>count = 1, resetTime = 65000\<rparr>]"

text \<open>
  A window so long that the reset time of an entry opened at time 0 is past the last
  time value a \<^verbatim>\<open>Date\<close> can hold, and the store after one admitted request.
\<close>

definition sample_far_env :: rl_env where
  "sample_far_env =
     \<lparr>MAX_REQUESTS = 1, WINDOW_MS = 8640000000000001, NODE_ENV = Some ''production''\<rparr>"

definition sample_far_counts :: "jws rl_store" where
  "sample_far_counts = [lit ''192.0.2.1'' \<mapsto> \<lparr>count = 1, resetTime = 8640000000000001\<rparr>]"

chapter \<open>Properties\<close>

section \<open>Rate limiting: what the calls do to the store\<close>

lemma checkRateLimit_new:
  fixes st :: "'j rl_store"
  assumes "window_over st ip now"
  shows "checkRateLimit env now ip st =
     (let c = (if 0 < MAX_REQUESTS env then 1 else 0) in
      (\<lparr>allowed = (0 < MAX_REQUESTS env), remaining = max 0 (MAX_REQUESTS env - c),
        d_resetTime = now + WINDOW_MS env, limit = MAX_REQUESTS env\<rparr>,
       st(ip \<mapsto> \<lparr>count = c, resetTime = now + WINDOW_MS env\<rparr>)))"
proof (cases "st ip")
  case None
  then show ?thesis
    by (simp add: checkRateLimit_def getRateLimitInfo_def Let_def)
next
  case (Some d)
  with assms have "now > resetTime d" by (simp add: window_over_def)
  with Some show ?thesis
    by (simp add: checkRateLimit_def getRateLimitInfo_def Let_def)
qed

lemma checkRateLimit_live:
  fixes st :: "'j rl_store"
  assumes "st ip = Some d" and "\<not> now > resetTime d"
  shows "checkRateLimit env now ip st =
     (if count d < MAX_REQUESTS env
      then (\<lparr>allowed = True, remaining = max 0 (MAX_REQUESTS env - (count d + 1)),
             d_resetTime = resetTime d, limit = MAX_REQUESTS env\<rparr>,
            st(ip \<mapsto> d\<lparr>count := count d + 1\<rparr>))
      else (\<lparr>allowed = False, remaining = max 0 (MAX_REQUESTS env - count d),
             d_resetTime = resetTime d, limit = MAX_REQUESTS env\<rparr>, st))"
  using assms
  by (simp add: checkRateLimit_def getRateLimitInfo_def Let_def)

text \<open>
  C3. With a limit of 3 and a window of any length, four consecutive evaluations for a
  key whose window starts with the first one (the key is new, or its old window is
  over), the other three no later than the reset time, are allowed, allowed, allowed
  and refused; a fifth evaluation after the reset time is allowed and leaves the key
  with count 1.
\<close>

theorem rate_governor_limit_three:
  fixes st :: "'j rl_store"
  assumes lim: "MAX_REQUESTS env = 3"
    and fresh: "window_over st ip t1"
    and t2: "t2 \<le> t1 + WINDOW_MS env"
    and t3: "t3 \<le> t1 + WINDOW_MS env"
    and t4: "t4 \<le> t1 + WINDOW_MS env"
    and t5: "t5 > t1 + WINDOW_MS env"
  shows "map allowed (fst (admits env ip [t1, t2, t3, t4] st)) = [True, True, True, False]
     \<and> allowed (fst (checkRateLimit env t5 ip (snd (admits env ip [t1, t2, t3, t4] st))))
     \<and> map_option count
          (snd (checkRateLimit env t5 ip (snd (admits env ip [t1, t2, t3, t4] st))) ip) = Some 1"
proof -
  let ?rt = "t1 + WINDOW_MS env"
  obtain d1 s1 where r1: "checkRateLimit env t1 ip st = (d1, s1)" by force
  obtain d2 s2 where r2: "checkRateLimit env t2 ip s1 = (d2, s2)" by force
  obtain d3 s3 where r3: "checkRateLimit env t3 ip s2 = (d3, s3)" by force
  obtain d4 s4 where r4: "checkRateLimit env t4 ip s3 = (d4, s4)" by force
  obtain d5 s5 where r5: "checkRateLimit env t5 ip s4 = (d5, s5)" by force
  have run: "admits env ip [t1, t2, t3, t4] st = ([d1, d2, d3, d4], s4)"
    by (simp add: r1 r2 r3 r4)
  have a1: "allowed d1" and e1: "s1 ip = Some \<lparr>count = 1, resetTime = ?rt\<rparr>"
    using r1 checkRateLimit_new [where st=st and ip=ip and now=t1 and env=env, OF fresh] lim
    by (auto simp: Let_def)
  have a2: "allowed d2" and e2: "s2 ip = Some \<lparr>count = 2, resetTime = ?rt\<rparr>"
    using r2 checkRateLimit_live [where st=s1 and ip=ip and now=t2 and env=env, OF e1] t2 lim
    by auto
  have a3: "allowed d3" and e3: "s3 ip = Some \<lparr>count = 3, resetTime = ?rt\<rparr>"
    using r3 checkRateLimit_live [where st=s2 and ip=ip and now=t3 and env=env, OF e2] t3 lim
    by auto
  have a4: "\<not> allowed d4" and e4: "s4 ip = Some \<lparr>count = 3, resetTime = ?rt\<rparr>"
    using r4 checkRateLimit_live [where st=s3 and ip=ip and now=t4 and env=env, OF e3] t4 lim e3
    by auto
  have n5: "window_over s4 ip t5"
    using e4 t5 by (simp add: window_over_def)
  have a5: "allowed d5" and e5: "s5 ip = Some \<lparr>count = 1, resetTime = t5 + WINDOW_MS env\<rparr>"
    using r5 checkRateLimit_new [where st=s4 and ip=ip and now=t5 and env=env, OF n5] lim
    by (auto simp: Let_def)
  show ?thesis
    unfolding run fst_conv snd_conv r5
    using a1 a2 a3 a4 a5 e5 by simp
qed

theorem rate_governor_limit_three_witness:
  "MAX_REQUESTS \<lparr>MAX_REQUESTS = 3, WINDOW_MS = 1000, NODE_ENV = None\<rparr> = 3
   \<and> window_over (Map.empty :: unit rl_store) (lit ''10.0.0.1'') 50
   \<and> (60::int) \<le> 50 + WINDOW_MS \<lparr>MAX_REQUESTS = 3, WINDOW_MS = 1000, NODE_ENV = None\<rparr>
   \<and> (1050::int) \<le> 50 + WINDOW_MS \<lparr>MAX_REQUESTS = 3, WINDOW_MS = 1000, NODE_ENV = None\<rparr>
   \<and> (1051::int) > 50 + WINDOW_MS \<lparr>MAX_REQUESTS = 3, WINDOW_MS = 1000, NODE_ENV = None\<rparr>
   \<and> map allowed (fst (admits \<lparr>MAX_REQUESTS = 3, WINDOW_MS = 1000, NODE_ENV = None\<rparr>
         (lit ''10.0.0.1'') [50, 60, 60, 1050] (Map.empty :: unit rl_store)))
       = [True, True, True, False]
   \<and> allowed (fst (checkRateLimit \<lparr>MAX_REQUESTS = 3, WINDOW_MS = 1000, NODE_ENV = None\<rparr> 1051
         (lit ''10.0.0.1'')
         (snd (admits \<lparr>MAX_REQUESTS = 3, WINDOW_MS = 1000, NODE_ENV = None\<rparr>
            (lit ''10.0.0.1'') [50, 60, 60, 1050] (Map.empty :: unit rl_store)))))
   \<and> map_option count
        (snd (checkRateLimit \<lparr>MAX_REQUESTS = 3, WINDOW_MS = 1000, NODE_ENV = None\<rparr> 1051
           (lit ''10.0.0.1'')
           (snd (admits \<lparr>MAX_REQUESTS = 3, WINDOW_MS = 1000, NODE_ENV = None\<rparr>
              (lit ''10.0.0.1'') [50, 60, 60, 1050] (Map.empty :: unit rl_store))))
          (lit ''10.0.0.1'')) = Some 1"
proof -
  have h: "window_over (Map.empty :: unit rl_store) (lit ''10.0.0.1'') 50"
    by (simp add: window_over_def)
  show ?thesis
    using h rate_governor_limit_three
      [where env = "\<lparr>MAX_REQUESTS = 3, WINDOW_MS = 1000, NODE_ENV = None\<rparr>"
         and st = "Map.empty :: unit rl_store" and ip = "lit ''10.0.0.1''"
         and ?t1.0 = 50 and ?t2.0 = 60 and ?t3.0 = 60 and ?t4.0 = 1050 and ?t5.0 = 1051]
    by simp
qed

lemma createRateLimit_live:
  fixes st :: "'j rl_store"
  assumes "\<not> is_localhost_dev env (getClientIP request)"
    and "st (getClientIP request) = Some d" and "\<not> now > resetTime d"
  shows "snd (createRateLimit maxRequests windowMs env now now2 request handler st) =
     (if count d < maxRequests then st(getClientIP request \<mapsto> d\<lparr>count := count d + 1\<rparr>)
      else st)"
  using assms
  by (simp add: createRateLimit_def Let_def split: sum.splits)

text \<open>
  C10. For a key whose entry is live at \<open>now\<close> (the entry exists and \<open>now\<close> is not past its
  reset time), \<^verbatim>\<open>checkRateLimit\<close> allows the request exactly when the count is below
  the limit; a refusal leaves the whole store as it was, so neither the count nor the
  reset time of the entry changes, and an admission adds one to the count and nothing
  else. The limiter built by \<^verbatim>\<open>createRateLimit\<close> does the same with its own limit.
\<close>

theorem rejection_leaves_entry_unchanged:
  fixes st :: "'j rl_store" and request :: "'j request"
  assumes live: "st ip = Some d" and inwin: "\<not> now > resetTime d"
  shows "allowed (fst (checkRateLimit env now ip st)) = (count d < MAX_REQUESTS env)
     \<and> snd (checkRateLimit env now ip st) =
         (if allowed (fst (checkRateLimit env now ip st))
          then st(ip \<mapsto> d\<lparr>count := count d + 1\<rparr>) else st)
     \<and> (getClientIP request = ip \<and> \<not> is_localhost_dev env ip \<longrightarrow>
          snd (createRateLimit maxRequests windowMs env now now2 request handler st) =
            (if count d < maxRequests then st(ip \<mapsto> d\<lparr>count := count d + 1\<rparr>) else st))"
  using checkRateLimit_live [where st=st and ip=ip and now=now and env=env, OF live inwin]
    createRateLimit_live [where st=st and now=now and env=env and d=d and request=request]
    live inwin
  by auto

theorem rejection_leaves_entry_unchanged_witness:
  "sample_counts (lit ''192.0.2.1'') = Some \<lparr>count = 1, resetTime = 65000\<rparr>
   \<and> \<not> (6000::int) > resetTime \<lparr>count = 1, resetTime = 65000\<rparr>
   \<and> \<not> allowed (fst (checkRateLimit sample_rl_env 6000 (lit ''192.0.2.1'') sample_counts))
   \<and> snd (checkRateLimit sample_rl_env 6000 (lit ''192.0.2.1'') sample_counts) = sample_counts
   \<and> snd (createRateLimit 1 60000 sample_rl_env 6000 6500
           (sample_request ''POST'' ''/api/auth/login'' [(''x-forwarded-for'', lit ''192.0.2.1'')])
           sample_handler sample_counts)
       = sample_counts"
proof -
  let ?rq = "sample_request ''POST'' ''/api/auth/login'' [(''x-forwarded-for'', lit ''192.0.2.1'')]"
  have live: "sample_counts (lit ''192.0.2.1'') = Some \<lparr>count = 1, resetTime = 65000\<rparr>"
    by (simp add: sample_counts_def)
  have inwin: "\<not> (6000::int) > resetTime \<lparr>count = 1, resetTime = 65000\<rparr>" by simp
  have key: "getClientIP ?rq = lit ''192.0.2.1''"
    by (simp add: getClientIP_def sample_request_def truthy_def split_comma_first_def trim_def
        is_js_space_def)
  have nodev: "\<not> is_localhost_dev sample_rl_env (lit ''192.0.2.1'' :: jws jstring)"
    by (simp add: is_localhost_dev_def sample_rl_env_def)
  note T = rejection_leaves_entry_unchanged
      [where st = sample_counts and ip = "lit ''192.0.2.1''" and now = 6000 and env = sample_rl_env
         and request = ?rq and maxRequests = 1 and windowMs = 60000 and ?now2.0 = 6500
         and handler = sample_handler, OF live inwin]
  have a: "\<not> allowed (fst (checkRateLimit sample_rl_env 6000 (lit ''192.0.2.1'') sample_counts))"
    using T [THEN conjunct1] by (simp add: sample_rl_env_def)
  have b: "snd (checkRateLimit sample_rl_env 6000 (lit ''192.0.2.1'') sample_counts) = sample_counts"
    using T [THEN conjunct2, THEN conjunct1] a by simp
  have c: "snd (createRateLimit 1 60000 sample_rl_env 6000 6500 ?rq sample_handler sample_counts)
      = sample_counts"
    using T [THEN conjunct2, THEN conjunct2] key nodev by simp
  show ?thesis using live inwin a b c by blast
qed

lemma getSecondsUntilReset_ceiling:
  "1000 * (getSecondsUntilReset now rt - 1) < rt - now
   \<and> rt - now \<le> 1000 * getSecondsUntilReset now rt"
proof -
  define q where "q = (- (rt - now)) div 1000"
  define r where "r = (- (rt - now)) mod 1000"
  have "- (rt - now) = 1000 * q + r" and "0 \<le> r" and "r < 1000"
    by (simp_all add: q_def r_def)
  then have "1000 * (- q - 1) < rt - now \<and> rt - now \<le> 1000 * (- q)"
    by auto
  then show ?thesis
    by (simp add: getSecondsUntilReset_def q_def)
qed

lemma checkRateLimit_limit:
  "checkRateLimit env now ip st = (d, st') \<Longrightarrow> limit d = MAX_REQUESTS env"
  by (auto simp: checkRateLimit_def Let_def split: prod.splits)

lemma withRateLimit_admitted:
  fixes st :: "'j rl_store"
  assumes "\<not> is_localhost_dev env (getClientIP request)"
    and "checkRateLimit env now (getClientIP request) st = (d, st')"
    and "allowed d" and "handler request = Inr response"
  shows "withRateLimit env now now2 request handler st =
     (Inr (set_header
            (set_header
              (set_header response ''X-RateLimit-Limit'' (NumText (limit d)))
              ''X-RateLimit-Remaining'' (NumText (remaining d)))
            ''X-RateLimit-Reset'' (NumText (d_resetTime d))), st')"
  using assms by (simp add: withRateLimit_def Let_def)

lemma withRateLimit_rejected:
  fixes st :: "'j rl_store"
  assumes "\<not> is_localhost_dev env (getClientIP request)"
    and "checkRateLimit env now (getClientIP request) st = (d, st')"
    and "\<not> allowed d"
    and "- 8640000000000000 \<le> d_resetTime d" and "d_resetTime d \<le> 8640000000000000"
  shows "withRateLimit env now now2 request handler st =
     (Inr (tooManyRequestsResponse ''Too many requests. Please try again later.''
             (Some \<lparr>det_limit = MAX_REQUESTS env, det_remaining = 0,
                    det_resetTime = ISO_8601 (d_resetTime d),
                    det_retryAfter = getSecondsUntilReset now2 (d_resetTime d)\<rparr>)), st')"
  using assms by (simp add: withRateLimit_def Let_def toISOString_def)

lemma withRateLimit_out_of_range:
  fixes st :: "'j rl_store"
  assumes "\<not> is_localhost_dev env (getClientIP request)"
    and "checkRateLimit env now (getClientIP request) st = (d, st')"
    and "\<not> allowed d" and "8640000000000000 < d_resetTime d"
  shows "withRateLimit env now now2 request handler st =
     (Inl (JsError ''RangeError'' ''Invalid time value''), st')"
  using assms by (simp add: withRateLimit_def Let_def toISOString_def)

text \<open>
  C8. Take a request the limiter governs (not the localhost exemption of development)
  and the decision \<open>d\<close> of \<^verbatim>\<open>checkRateLimit\<close> for it. When \<open>d\<close> allows it and the
  handler returns a response, the result is that response with the headers
  X-RateLimit-Limit, X-RateLimit-Remaining and X-RateLimit-Reset set to the limit, the
  remaining count and the reset time. When \<open>d\<close> refuses it (and the reset time is a
  time value a \<^verbatim>\<open>Date\<close> can hold), the result has status 429 and the error details
  \<^verbatim>\<open>{limit, remaining: 0, resetTime, retryAfter}\<close>, with \<^verbatim>\<open>resetTime\<close> the ISO-8601
  rendering of the reset time and \<^verbatim>\<open>retryAfter\<close> the whole number of seconds that is
  the time left until the reset, rounded up.
\<close>

theorem rate_limit_headers_and_429:
  fixes st :: "'j rl_store"
  assumes governed: "\<not> is_localhost_dev env (getClientIP request)"
    and dec: "checkRateLimit env now (getClientIP request) st = (d, st')"
  shows "(allowed d \<and> handler request = Inr response \<longrightarrow>
           fst (withRateLimit env now now2 request handler st) =
             Inr (response\<lparr>res_headers := (res_headers response)
                    (''X-RateLimit-Limit'' \<mapsto> NumText (limit d),
                     ''X-RateLimit-Remaining'' \<mapsto> NumText (remaining d),
                     ''X-RateLimit-Reset'' \<mapsto> NumText (d_resetTime d))\<rparr>))
     \<and> (\<not> allowed d \<and> - 8640000000000000 \<le> d_resetTime d
           \<and> d_resetTime d \<le> 8640000000000000 \<longrightarrow>
           fst (withRateLimit env now now2 request handler st) =
             Inr \<lparr>status = 429,
                  body = ErrorEnvelope ''Too many requests. Please try again later.'' 429
                     (Some \<lparr>det_limit = limit d, det_remaining = 0,
                            det_resetTime = ISO_8601 (d_resetTime d),
                            det_retryAfter = getSecondsUntilReset now2 (d_resetTime d)\<rparr>),
                  res_headers = Map.empty\<rparr>
           \<and> 1000 * (getSecondsUntilReset now2 (d_resetTime d) - 1) < d_resetTime d - now2
           \<and> d_resetTime d - now2 \<le> 1000 * getSecondsUntilReset now2 (d_resetTime d))"
proof -
  have adm: "allowed d \<and> handler request = Inr response \<longrightarrow>
           fst (withRateLimit env now now2 request handler st) =
             Inr (response\<lparr>res_headers := (res_headers response)
                    (''X-RateLimit-Limit'' \<mapsto> NumText (limit d),
                     ''X-RateLimit-Remaining'' \<mapsto> NumText (remaining d),
                     ''X-RateLimit-Reset'' \<mapsto> NumText (d_resetTime d))\<rparr>)"
    by (simp add: withRateLimit_admitted [OF governed dec] set_header_def)
  have rej: "\<not> allowed d \<and> - 8640000000000000 \<le> d_resetTime d
           \<and> d_resetTime d \<le> 8640000000000000 \<longrightarrow>
           fst (withRateLimit env now now2 request handler st) =
             Inr \<lparr>status = 429,
                  body = ErrorEnvelope ''Too many requests. Please try again later.'' 429
                     (Some \<lparr>det_limit = limit d, det_remaining = 0,
                            det_resetTime = ISO_8601 (d_resetTime d),
                            det_retryAfter = getSecondsUntilReset now2 (d_resetTime d)\<rparr>),
                  res_headers = Map.empty\<rparr>"
    by (simp add: withRateLimit_rejected [OF governed dec] checkRateLimit_limit [OF dec]
        tooManyRequestsResponse_def errorResponse_def)
  show ?thesis
    using adm rej getSecondsUntilReset_ceiling [of now2 "d_resetTime d"] by blast
qed

theorem rate_limit_headers_and_429_witness:
  "\<not> is_localhost_dev sample_rl_env
       (getClientIP (sample_request ''GET'' ''/api/tasks'' [(''x-forwarded-for'', lit ''192.0.2.1'')]))
   \<and> fst (withRateLimit sample_rl_env 5000 5000
           (sample_request ''GET'' ''/api/tasks'' [(''x-forwarded-for'', lit ''192.0.2.1'')])
           sample_handler Map.empty)
       = Inr \<lparr>status = 200, body = Payload ''anonymous'',
              res_headers = [''X-RateLimit-Limit'' \<mapsto> NumText 1,
                             ''X-RateLimit-Remaining'' \<mapsto> NumText 0,
                             ''X-RateLimit-Reset'' \<mapsto> NumText 65000]\<rparr>
   \<and> fst (withRateLimit sample_rl_env 6000 6500
           (sample_request ''GET'' ''/api/tasks'' [(''x-forwarded-for'', lit ''192.0.2.1'')])
           sample_handler sample_counts)
       = Inr \<lparr>status = 429,
              body = ErrorEnvelope ''Too many requests. Please try again later.'' 429
                 (Some \<lparr>det_limit = 1, det_remaining = 0, det_resetTime = ISO_8601 65000,
                        det_retryAfter = 59\<rparr>),
              res_headers = Map.empty\<rparr>"
proof -
  let ?rq = "sample_request ''GET'' ''/api/tasks'' [(''x-forwarded-for'', lit ''192.0.2.1'')]"
  have key: "getClientIP ?rq = lit ''192.0.2.1''"
    by (simp add: getClientIP_def sample_request_def truthy_def split_comma_first_def trim_def
        is_js_space_def)
  have gov: "\<not> is_localhost_dev sample_rl_env (getClientIP ?rq)"
    by (simp add: key is_localhost_dev_def sample_rl_env_def)
  have dec1: "checkRateLimit sample_rl_env 5000 (getClientIP ?rq) Map.empty =
      (\<lparr>allowed = True, remaining = 0, d_resetTime = 65000, limit = 1\<rparr>, sample_counts)"
    unfolding key
    by (simp add: checkRateLimit_new window_over_def sample_rl_env_def sample_counts_def)
  have dec2: "checkRateLimit sample_rl_env 6000 (getClientIP ?rq) sample_counts =
      (\<lparr>allowed = False, remaining = 0, d_resetTime = 65000, limit = 1\<rparr>, sample_counts)"
    unfolding key
    by (simp add: checkRateLimit_live [where d = "\<lparr>count = 1, resetTime = 65000\<rparr>"]
        sample_rl_env_def sample_counts_def)
  have h: "sample_handler ?rq =
      Inr \<lparr>status = 200, body = Payload ''anonymous'', res_headers = Map.empty\<rparr>"
    by (simp add: sample_handler_def sample_request_def)
  have r1: "fst (withRateLimit sample_rl_env 5000 5000 ?rq sample_handler Map.empty)
       = Inr \<lparr>status = 200, body = Payload ''anonymous'',
              res_headers = [''X-RateLimit-Limit'' \<mapsto> NumText 1,
                             ''X-RateLimit-Remaining'' \<mapsto> NumText 0,
                             ''X-RateLimit-Reset'' \<mapsto> NumText 65000]\<rparr>"
    using rate_limit_headers_and_429
      [OF gov dec1, where handler = sample_handler and ?now2.0 = 5000
         and response = "\<lparr>status = 200, body = Payload ''anonymous'', res_headers = Map.empty\<rparr>",
       THEN conjunct1] h
    by simp
  have r2: "fst (withRateLimit sample_rl_env 6000 6500 ?rq sample_handler sample_counts)
       = Inr \<lparr>status = 429,
              body = ErrorEnvelope ''Too many requests. Please try again later.'' 429
                 (Some \<lparr>det_limit = 1, det_remaining = 0, det_resetTime = ISO_8601 65000,
                        det_retryAfter = 59\<rparr>),
              res_headers = Map.empty\<rparr>"
    using rate_limit_headers_and_429
      [OF gov dec2, where handler = sample_handler and ?now2.0 = 6500
         and response = "\<lparr>status = 200, body = Payload ''anonymous'', res_headers = Map.empty\<rparr>",
       THEN conjunct2]
    by (simp add: getSecondsUntilReset_def)
  show ?thesis using gov r1 r2 by blast
qed

text \<open>
  C8 as stated has every refused request answered 429. With a window of
  8640000000000001 ms and a limit of 1, the first request of 192.0.2.1 at time 0 is
  admitted and opens an entry whose reset time no \<^verbatim>\<open>Date\<close> can hold; the second
  request is refused, \<^verbatim>\<open>toISOString\<close> throws, and the call rejects with a
  \<^verbatim>\<open>RangeError\<close> instead of answering 429.
\<close>

theorem rate_limit_refusal_out_of_date_range:
  "\<not> is_localhost_dev sample_far_env
       (getClientIP (sample_request ''GET'' ''/api/tasks'' [(''x-forwarded-for'', lit ''192.0.2.1'')]))
   \<and> snd (withRateLimit sample_far_env 0 0
           (sample_request ''GET'' ''/api/tasks'' [(''x-forwarded-for'', lit ''192.0.2.1'')])
           sample_handler Map.empty)
       = sample_far_counts
   \<and> \<not> allowed (fst (checkRateLimit sample_far_env 1000 (lit ''192.0.2.1'') sample_far_counts))
   \<and> fst (withRateLimit sample_far_env 1000 1000
           (sample_request ''GET'' ''/api/tasks'' [(''x-forwarded-for'', lit ''192.0.2.1'')])
           sample_handler sample_far_counts)
       = Inl (JsError ''RangeError'' ''Invalid time value'')"
proof -
  let ?rq = "sample_request ''GET'' ''/api/tasks'' [(''x-forwarded-for'', lit ''192.0.2.1'')]"
  have key: "getClientIP ?rq = lit ''192.0.2.1''"
    by (simp add: getClientIP_def sample_request_def truthy_def split_comma_first_def trim_def
        is_js_space_def)
  have gov: "\<not> is_localhost_dev sample_far_env (getClientIP ?rq)"
    by (simp add: key is_localhost_dev_def sample_far_env_def)
  have dec1: "checkRateLimit sample_far_env 0 (getClientIP ?rq) Map.empty =
      (\<lparr>allowed = True, remaining = 0, d_resetTime = 8640000000000001, limit = 1\<rparr>,
       sample_far_counts)"
    unfolding key
    by (simp add: checkRateLimit_new window_over_def sample_far_env_def sample_far_counts_def)
  have dec2: "checkRateLimit sample_far_env 1000 (getClientIP ?rq) sample_far_counts =
      (\<lparr>allowed = False, remaining = 0, d_resetTime = 8640000000000001, limit = 1\<rparr>,
       sample_far_counts)"
    unfolding key
    by (simp add: checkRateLimit_live [where d = "\<lparr>count = 1, resetTime = 8640000000000001\<rparr>"]
        sample_far_env_def sample_far_counts_def)
  have h: "sample_handler ?rq =
      Inr \<lparr>status = 200, body = Payload ''anonymous'', res_headers = Map.empty\<rparr>"
    by (simp add: sample_handler_def sample_request_def)
  have s1: "snd (withRateLimit sample_far_env 0 0 ?rq sample_handler Map.empty) = sample_far_counts"
    using withRateLimit_admitted
        [where handler = sample_handler and ?now2.0 = 0, OF gov dec1 _ h]
    by simp
  have na: "\<not> allowed (fst (checkRateLimit sample_far_env 1000 (lit ''192.0.2.1'') sample_far_counts))"
    using dec2 unfolding key by simp
  have r: "fst (withRateLimit sample_far_env 1000 1000 ?rq sample_handler sample_far_counts)
       = Inl (JsError ''RangeError'' ''Invalid time value'')"
    using withRateLimit_out_of_range
        [where handler = sample_handler and ?now2.0 = 1000, OF gov dec2]
    by simp
  show ?thesis using gov s1 na r by blast
qed

lemma split_comma_first_entry:
  assumes "Chr CHR '','' \<notin> set a"
  shows "split_comma_first (a @ Chr CHR '','' # b) = a" and "split_comma_first a = a"
proof -
  have all: "\<And>x. x \<in> set a \<Longrightarrow> x \<noteq> Chr CHR '',''" using assms by auto
  show "split_comma_first (a @ Chr CHR '','' # b) = a"
    using all by (simp add: split_comma_first_def takeWhile_append2)
  show "split_comma_first a = a"
    using all by (simp add: split_comma_first_def takeWhile_eq_all_conv)
qed

text \<open>
  C4. The key \<^verbatim>\<open>getClientIP\<close> derives (rateLimit.js; logger.js has the same function,
  line for line). A header counts as present when it is there and not empty. In order of preference: the first comma-separated entry of x-forwarded-for,
  trimmed (the whole value when it has no comma); otherwise cf-connecting-ip; otherwise
  x-real-ip; otherwise the string \<^verbatim>\<open>unknown\<close>. So cf-connecting-ip is preferred to
  x-real-ip when a request carries both.
\<close>

theorem client_key_preference:
  fixes request :: "'j request"
  shows
  "(headers request ''x-forwarded-for'' = Some f \<and> f \<noteq> [] \<and> Chr CHR '','' \<notin> set f \<longrightarrow>
      getClientIP request = trim f)
   \<and> (headers request ''x-forwarded-for'' = Some (a @ Chr CHR '','' # b) \<and> Chr CHR '','' \<notin> set a \<longrightarrow>
      getClientIP request = trim a)
   \<and> (\<not> truthy (headers request ''x-forwarded-for'')
        \<and> headers request ''cf-connecting-ip'' = Some c \<and> c \<noteq> [] \<longrightarrow>
      getClientIP request = c)
   \<and> (\<not> truthy (headers request ''x-forwarded-for'')
        \<and> \<not> truthy (headers request ''cf-connecting-ip'')
        \<and> headers request ''x-real-ip'' = Some r \<and> r \<noteq> [] \<longrightarrow>
      getClientIP request = r)
   \<and> (\<not> truthy (headers request ''x-forwarded-for'')
        \<and> \<not> truthy (headers request ''cf-connecting-ip'')
        \<and> \<not> truthy (headers request ''x-real-ip'') \<longrightarrow>
      getClientIP request = lit ''unknown'')"
  by (auto simp: getClientIP_def truthy_def split_comma_first_entry)

theorem client_key_preference_witness:
  "getClientIP (sample_request ''GET'' ''/api/tasks''
       [(''x-forwarded-for'', lit '' 192.0.2.1 , 10.0.0.1''), (''x-real-ip'', lit ''203.0.113.7'')])
    = lit ''192.0.2.1''
  \<and> getClientIP (sample_request ''GET'' ''/api/tasks''
       [(''x-real-ip'', lit ''203.0.113.7''), (''cf-connecting-ip'', lit ''198.51.100.9'')])
    = lit ''198.51.100.9''
  \<and> getClientIP (sample_request ''GET'' ''/api/tasks'' [(''x-real-ip'', lit ''203.0.113.7'')])
    = lit ''203.0.113.7''
  \<and> getClientIP (sample_request ''GET'' ''/api/tasks'' []) = lit ''unknown''"
proof -
  let ?r1 = "sample_request ''GET'' ''/api/tasks''
       [(''x-forwarded-for'', lit '' 192.0.2.1 , 10.0.0.1''), (''x-real-ip'', lit ''203.0.113.7'')]"
  let ?r2 = "sample_request ''GET'' ''/api/tasks''
       [(''x-real-ip'', lit ''203.0.113.7''), (''cf-connecting-ip'', lit ''198.51.100.9'')]"
  let ?r3 = "sample_request ''GET'' ''/api/tasks'' [(''x-real-ip'', lit ''203.0.113.7'')]"
  let ?r4 = "sample_request ''GET'' ''/api/tasks'' []"
  have 1: "getClientIP ?r1 = lit ''192.0.2.1''"
    using client_key_preference
      [where request = ?r1 and a = "lit '' 192.0.2.1 ''" and b = "lit '' 10.0.0.1''"
         and f = "[]" and c = "[]" and r = "[]"]
    by (simp add: sample_request_def truthy_def trim_def is_js_space_def)
  have 2: "getClientIP ?r2 = lit ''198.51.100.9''"
    using client_key_preference
      [where request = ?r2 and c = "lit ''198.51.100.9''"
         and f = "[]" and a = "[]" and b = "[]" and r = "[]"]
    by (simp add: sample_request_def truthy_def)
  have 3: "getClientIP ?r3 = lit ''203.0.113.7''"
    using client_key_preference
      [where request = ?r3 and r = "lit ''203.0.113.7''"
         and f = "[]" and a = "[]" and b = "[]" and c = "[]"]
    by (simp add: sample_request_def truthy_def)
  have 4: "getClientIP ?r4 = lit ''unknown''"
    using client_key_preference
      [where request = ?r4 and f = "[]" and a = "[]" and b = "[]" and c = "[]" and r = "[]"]
    by (simp add: sample_request_def truthy_def)
  show ?thesis using 1 2 3 4 by simp
qed

text \<open>
  C4 as stated puts x-real-ip before cf-connecting-ip. A request with no
  x-forwarded-for header, x-real-ip 203.0.113.7 and cf-connecting-ip 198.51.100.9 gets
  the key 198.51.100.9, not 203.0.113.7.
\<close>

theorem client_key_real_ip_not_preferred:
  "headers (sample_request ''GET'' ''/api/tasks''
       [(''x-real-ip'', lit ''203.0.113.7''), (''cf-connecting-ip'', lit ''198.51.100.9'')])
     ''x-forwarded-for'' = None
   \<and> headers (sample_request ''GET'' ''/api/tasks''
       [(''x-real-ip'', lit ''203.0.113.7''), (''cf-connecting-ip'', lit ''198.51.100.9'')])
     ''x-real-ip'' = Some (lit ''203.0.113.7'')
   \<and> getClientIP (sample_request ''GET'' ''/api/tasks''
       [(''x-real-ip'', lit ''203.0.113.7''), (''cf-connecting-ip'', lit ''198.51.100.9'')])
      = lit ''198.51.100.9''
   \<and> getClientIP (sample_request ''GET'' ''/api/tasks''
       [(''x-real-ip'', lit ''203.0.113.7''), (''cf-connecting-ip'', lit ''198.51.100.9'')])
      \<noteq> lit ''203.0.113.7''"
  by (simp add: getClientIP_def sample_request_def truthy_def)

section \<open>Tokens: issue and verify\<close>

lemma jwt_verify_signed:
  "jwt_verify now (jwt_sign t0 p secret expiresIn issuer audience) secret' issuer' audience' =
     (let p' = p\<lparr>c_iat := Some (t0 div 1000), c_exp := Some (t0 div 1000 + expiresIn),
                   c_aud := Some audience, c_iss := Some issuer\<rparr> in
      if secret' \<noteq> secret then Inl (JsError ''JsonWebTokenError'' ''invalid signature'')
      else if (case c_nbf p of None \<Rightarrow> False | Some nbf \<Rightarrow> nbf > now div 1000) then
        Inl (JsError ''NotBeforeError'' ''jwt not active'')
      else if now div 1000 \<ge> t0 div 1000 + expiresIn then
        Inl (JsError ''TokenExpiredError'' ''jwt expired'')
      else if audience \<noteq> audience' then
        Inl (JsError ''JsonWebTokenError'' (''jwt audience invalid. expected: '' @ audience'))
      else if issuer \<noteq> issuer' then
        Inl (JsError ''JsonWebTokenError'' (''jwt issuer invalid. expected: '' @ issuer'))
      else Inr p')"
  by (simp add: jwt_verify_def jwt_sign_def Let_def decode_compact_def)

text \<open>
  C2. An access token issued for the identity \<open>I\<close> at \<open>t0\<close>. Verified at \<open>now\<close>
  before it expires, \<^verbatim>\<open>verifyAccessToken\<close> succeeds and returns the claims of \<open>I\<close>
  (\<^verbatim>\<open>id\<close>, \<^verbatim>\<open>email\<close>, \<^verbatim>\<open>role\<close>) with the kind, the times, the audience and the
  issuer. \<^verbatim>\<open>verifyRefreshToken\<close> on the same token fails at every \<open>now\<close>: with
  \<^verbatim>\<open>Invalid refresh token\<close> when the two secrets differ (the signature check fails
  before anything else is looked at); when the refresh secret equals the access
  secret, with \<^verbatim>\<open>Invalid token type\<close> before the token expires and with
  \<^verbatim>\<open>Refresh token has expired\<close> from then on.
\<close>

theorem access_token_round_trip:
  "(now div 1000 < t0 div 1000 + JWT_ACCESS_EXPIRES_IN env \<longrightarrow>
      verifyAccessToken env now (generateAccessToken env t0 I) =
        Inr (no_claims\<lparr>c_id := Some (i_id I), c_email := Some (i_email I),
               c_role := Some (i_role I), c_type := Some ''access'',
               c_iat := Some (t0 div 1000),
               c_exp := Some (t0 div 1000 + JWT_ACCESS_EXPIRES_IN env),
               c_aud := Some ''todo-app'', c_iss := Some ''todo-api''\<rparr>))
   \<and> verifyRefreshToken env now (generateAccessToken env t0 I) =
       Inl (JsError ''Error''
             (if JWT_REFRESH_SECRET env \<noteq> JWT_SECRET env then ''Invalid refresh token''
              else if now div 1000 < t0 div 1000 + JWT_ACCESS_EXPIRES_IN env
                then ''Invalid token type''
              else ''Refresh token has expired''))"
  by (simp add: verifyAccessToken_def verifyRefreshToken_def generateAccessToken_def
      jwt_verify_signed Let_def no_claims_def)

theorem access_token_round_trip_witness:
  "(1000::int) div 1000 < 0 div 1000 + JWT_ACCESS_EXPIRES_IN sample_shared_env
   \<and> verifyAccessToken sample_shared_env 1000
        (generateAccessToken sample_shared_env 0 (sample_identity ''u1'')) =
       Inr (no_claims\<lparr>c_id := Some ''u1'', c_email := Some ''ann@example.org'',
              c_role := Some ''User'', c_type := Some ''access'', c_iat := Some 0,
              c_exp := Some 900, c_aud := Some ''todo-app'', c_iss := Some ''todo-api''\<rparr>)
   \<and> verifyRefreshToken sample_shared_env 1000
        (generateAccessToken sample_shared_env 0 (sample_identity ''u1'')) =
       Inl (JsError ''Error'' ''Invalid token type'')
   \<and> verifyRefreshToken sample_shared_env 1000000
        (generateAccessToken sample_shared_env 0 (sample_identity ''u1'')) =
       Inl (JsError ''Error'' ''Refresh token has expired'')
   \<and> verifyRefreshToken sample_env 1000000
        (generateAccessToken sample_env 0 (sample_identity ''u1'')) =
       Inl (JsError ''Error'' ''Invalid refresh token'')"
proof -
  have h: "(1000::int) div 1000 < 0 div 1000 + JWT_ACCESS_EXPIRES_IN sample_shared_env"
    by (simp add: sample_shared_env_def)
  note T1 = access_token_round_trip [where env = sample_shared_env and now = 1000 and ?t0.0 = 0
      and I = "sample_identity ''u1''"]
  note T2 = access_token_round_trip [where env = sample_shared_env and now = 1000000 and ?t0.0 = 0
      and I = "sample_identity ''u1''"]
  note T3 = access_token_round_trip [where env = sample_env and now = 1000000 and ?t0.0 = 0
      and I = "sample_identity ''u1''"]
  have a: "verifyAccessToken sample_shared_env 1000
        (generateAccessToken sample_shared_env 0 (sample_identity ''u1'')) =
       Inr (no_claims\<lparr>c_id := Some ''u1'', c_email := Some ''ann@example.org'',
              c_role := Some ''User'', c_type := Some ''access'', c_iat := Some 0,
              c_exp := Some 900, c_aud := Some ''todo-app'', c_iss := Some ''todo-api''\<rparr>)"
    using T1 [THEN conjunct1] h by (simp add: sample_shared_env_def sample_identity_def)
  have b: "verifyRefreshToken sample_shared_env 1000
        (generateAccessToken sample_shared_env 0 (sample_identity ''u1'')) =
       Inl (JsError ''Error'' ''Invalid token type'')"
    using T1 [THEN conjunct2] by (simp add: sample_shared_env_def)
  have c: "verifyRefreshToken sample_shared_env 1000000
        (generateAccessToken sample_shared_env 0 (sample_identity ''u1'')) =
       Inl (JsError ''Error'' ''Refresh token has expired'')"
    using T2 [THEN conjunct2] by (simp add: sample_shared_env_def)
  have d: "verifyRefreshToken sample_env 1000000
        (generateAccessToken sample_env 0 (sample_identity ''u1'')) =
       Inl (JsError ''Error'' ''Invalid refresh token'')"
    using T3 [THEN conjunct2] by (simp add: sample_env_def)
  show ?thesis using h a b c d by blast
qed

text \<open>
  C2 as stated has \<^verbatim>\<open>verifyRefreshToken\<close> fail with \<^verbatim>\<open>Invalid token type\<close>.
  With two different secrets it fails with \<^verbatim>\<open>Invalid refresh token\<close>.
\<close>

theorem refresh_verifier_reports_signature_first:
  "JWT_REFRESH_SECRET sample_env \<noteq> JWT_SECRET sample_env
   \<and> verifyRefreshToken sample_env 1000 (generateAccessToken sample_env 0 (sample_identity ''u1''))
       = Inl (JsError ''Error'' ''Invalid refresh token'')
   \<and> verifyRefreshToken sample_env 1000 (generateAccessToken sample_env 0 (sample_identity ''u1''))
       \<noteq> Inl (JsError ''Error'' ''Invalid token type'')"
  by (simp add: verifyRefreshToken_def generateAccessToken_def jwt_verify_signed Let_def
      sample_env_def)

lemma token_service_accepts_edge_accepts:
  "verifyAccessToken env now t = Inr c \<Longrightarrow> verifyTokenEdge (JWT_SECRET env) now t = Inr c"
  by (auto simp: verifyAccessToken_def verifyTokenEdge_def jwt_verify_def jose_jwtVerify_def
      Let_def split: if_splits option.splits sum.splits)

text \<open>
  C1. The two verifiers do not reach the same decision on every token.
  \<^verbatim>\<open>verifyTokenEdge\<close> calls \<^verbatim>\<open>jwtVerify\<close> with no issuer and no audience and never
  looks at the kind, so it accepts what \<^verbatim>\<open>verifyAccessToken\<close> refuses: a refresh token,
  when the two secrets of the environment are the same string, and a token signed
  with the access secret for another issuer and audience.
\<close>

theorem edge_verifier_accepts_what_token_service_rejects:
  "verifyTokenEdge (JWT_SECRET sample_shared_env) 1000
       (generateRefreshToken sample_shared_env 0 ''u1'')
     = Inr (no_claims\<lparr>c_id := Some ''u1'', c_type := Some ''refresh'', c_iat := Some 0,
              c_exp := Some 604800, c_aud := Some ''todo-app'', c_iss := Some ''todo-api''\<rparr>)
   \<and> verifyAccessToken sample_shared_env 1000 (generateRefreshToken sample_shared_env 0 ''u1'')
     = Inl (JsError ''Error'' ''Invalid token type'')
   \<and> verifyTokenEdge (JWT_SECRET sample_env) 1000 sample_foreign_token
     = Inr (no_claims\<lparr>c_id := Some ''u1'', c_role := Some ''Admin'', c_type := Some ''access'',
              c_iat := Some 0, c_exp := Some 900, c_aud := Some ''another-app'',
              c_iss := Some ''another-api''\<rparr>)
   \<and> verifyAccessToken sample_env 1000 sample_foreign_token
     = Inl (JsError ''Error'' ''Invalid token'')"
  by (simp add: verifyTokenEdge_def jose_jwtVerify_def verifyAccessToken_def jwt_verify_def
      generateRefreshToken_def sample_foreign_token_def jwt_sign_def decode_compact_def
      sample_shared_env_def sample_env_def no_claims_def Let_def)

section \<open>The authentication middleware\<close>

lemma startsWith_iff: "startsWith s p \<longleftrightarrow> (\<exists>t. s = p @ t)"
proof
  assume "startsWith s p"
  then have "s = p @ drop (length p) s"
    unfolding startsWith_def by (metis append_take_drop_id)
  then show "\<exists>t. s = p @ t" ..
next
  assume "\<exists>t. s = p @ t"
  then show "startsWith s p" by (auto simp: startsWith_def)
qed

lemma startsWith_Cons: "startsWith (c # cs) (p # ps) = (c = p \<and> startsWith cs ps)"
  by (simp add: startsWith_def)

lemma startsWith_Nil: "startsWith s [] = True" "startsWith [] (p # ps) = False"
  by (simp_all add: startsWith_def)

lemma extractTokenFromHeader_bearer:
  "extractTokenFromHeader (Some (lit ''Bearer '' @ token)) = Some token"
  by (simp add: extractTokenFromHeader_def truthy_def startsWith_def substring_def)

lemma extractTokenFromHeader_none:
  assumes "\<not> (\<exists>token. token \<noteq> [] \<and> h = Some (lit ''Bearer '' @ token))"
  shows "\<not> truthy (extractTokenFromHeader h)"
proof (cases h)
  case None
  then show ?thesis by (simp add: extractTokenFromHeader_def truthy_def)
next
  case (Some s)
  show ?thesis
  proof (cases "startsWith s (lit ''Bearer '')")
    case False
    with Some show ?thesis by (simp add: extractTokenFromHeader_def truthy_def)
  next
    case True
    then obtain t where t: "s = lit ''Bearer '' @ t" unfolding startsWith_iff ..
    with assms Some have "t = []" by auto
    with t Some show ?thesis
      by (simp add: extractTokenFromHeader_def truthy_def startsWith_def substring_def)
  qed
qed

lemma withAuth_bearer:
  assumes "headers request ''authorization'' = Some (lit ''Bearer '' @ token)" and "token \<noteq> []"
  shows "withAuth env now findUnique request handler roles =
     (case verifyAccessToken env now token of
        Inl error \<Rightarrow> Inr (unauthorizedResponse (err_message error))
      | Inr decoded \<Rightarrow>
          (case findUnique (c_id decoded) of
             Inl error \<Rightarrow> Inr (unauthorizedResponse ''Authentication failed'')
           | Inr None \<Rightarrow> Inr (unauthorizedResponse ''User not found. Please login again.'')
           | Inr (Some u) \<Rightarrow>
               if (case roles of None \<Rightarrow> False | Some rs \<Rightarrow> length rs > 0 \<and> u_role u \<notin> set rs)
               then Inr (forbiddenResponse
                           (''Access denied. Required role: '' @ join '' or '' (the roles)))
               else handler (request\<lparr>req_user := Some u\<rparr>)))"
  using assms
  unfolding withAuth_def Let_def extractTokenFromHeader_bearer assms(1)
  by (simp add: truthy_def)

text \<open>
  C5. The outcomes of \<^verbatim>\<open>withAuth\<close>. A request has a bearer token \<open>token\<close> when its
  authorization header is \<^verbatim>\<open>Bearer\<close>, a space and the non-empty \<open>token\<close>.
  (1) With no bearer token the answer is 401, \<^verbatim>\<open>No token provided. Please login.\<close>
  (2) When \<^verbatim>\<open>verifyAccessToken\<close> fails with the error \<open>e\<close> the answer is 401 with the
  message of \<open>e\<close>. (3) With a valid token whose \<^verbatim>\<open>id\<close> the identity store does not find,
  401, \<^verbatim>\<open>User not found. Please login again.\<close> (4) With a valid token, the user \<open>u\<close>
  found, and a non-empty list of allowed roles that does not hold the role of \<open>u\<close>, 403
  naming the roles joined by \<^verbatim>\<open>or\<close>. (5) With a valid token, the user \<open>u\<close> found and
  no role list, an empty one, or one that holds the role of \<open>u\<close>, the result is the
  handler's, called on the request with \<open>u\<close> attached.
\<close>

theorem auth_gate_outcomes:
  "(\<not> (\<exists>t. t \<noteq> [] \<and> headers request ''authorization'' = Some (lit ''Bearer '' @ t)) \<longrightarrow>
      withAuth env now findUnique request handler roles =
        Inr \<lparr>status = 401, body = ErrorEnvelope ''No token provided. Please login.'' 401 None,
             res_headers = Map.empty\<rparr>)
   \<and> (headers request ''authorization'' = Some (lit ''Bearer '' @ token) \<and> token \<noteq> []
        \<and> verifyAccessToken env now token = Inl e \<longrightarrow>
      withAuth env now findUnique request handler roles =
        Inr \<lparr>status = 401, body = ErrorEnvelope (err_message e) 401 None,
             res_headers = Map.empty\<rparr>)
   \<and> (headers request ''authorization'' = Some (lit ''Bearer '' @ token) \<and> token \<noteq> []
        \<and> verifyAccessToken env now token = Inr c \<and> findUnique (c_id c) = Inr None \<longrightarrow>
      withAuth env now findUnique request handler roles =
        Inr \<lparr>status = 401,
             body = ErrorEnvelope ''User not found. Please login again.'' 401 None,
             res_headers = Map.empty\<rparr>)
   \<and> (headers request ''authorization'' = Some (lit ''Bearer '' @ token) \<and> token \<noteq> []
        \<and> verifyAccessToken env now token = Inr c \<and> findUnique (c_id c) = Inr (Some u)
        \<and> roles = Some rs \<and> rs \<noteq> [] \<and> u_role u \<notin> set rs \<longrightarrow>
      withAuth env now findUnique request handler roles =
        Inr \<lparr>status = 403,
             body = ErrorEnvelope (''Access denied. Required role: '' @ join '' or '' rs) 403 None,
             res_headers = Map.empty\<rparr>)
   \<and> (headers request ''authorization'' = Some (lit ''Bearer '' @ token) \<and> token \<noteq> []
        \<and> verifyAccessToken env now token = Inr c \<and> findUnique (c_id c) = Inr (Some u)
        \<and> (roles = None \<or> roles = Some [] \<or> (roles = Some rs \<and> u_role u \<in> set rs)) \<longrightarrow>
      withAuth env now findUnique request handler roles =
        handler (request\<lparr>req_user := Some u\<rparr>))"
proof -
  have none: "\<not> (\<exists>t. t \<noteq> [] \<and> headers request ''authorization'' = Some (lit ''Bearer '' @ t)) \<longrightarrow>
      withAuth env now findUnique request handler roles =
        Inr \<lparr>status = 401, body = ErrorEnvelope ''No token provided. Please login.'' 401 None,
             res_headers = Map.empty\<rparr>"
    using extractTokenFromHeader_none [of "headers request ''authorization''"]
    by (simp add: withAuth_def Let_def unauthorizedResponse_def errorResponse_def)
  have bad: "headers request ''authorization'' = Some (lit ''Bearer '' @ token) \<and> token \<noteq> []
        \<and> verifyAccessToken env now token = Inl e \<longrightarrow>
      withAuth env now findUnique request handler roles =
        Inr \<lparr>status = 401, body = ErrorEnvelope (err_message e) 401 None,
             res_headers = Map.empty\<rparr>"
    by (simp add: withAuth_bearer unauthorizedResponse_def errorResponse_def)
  have gone: "headers request ''authorization'' = Some (lit ''Bearer '' @ token) \<and> token \<noteq> []
        \<and> verifyAccessToken env now token = Inr c \<and> findUnique (c_id c) = Inr None \<longrightarrow>
      withAuth env now findUnique request handler roles =
        Inr \<lparr>status = 401,
             body = ErrorEnvelope ''User not found. Please login again.'' 401 None,
             res_headers = Map.empty\<rparr>"
    by (simp add: withAuth_bearer unauthorizedResponse_def errorResponse_def)
  have role: "headers request ''authorization'' = Some (lit ''Bearer '' @ token) \<and> token \<noteq> []
        \<and> verifyAccessToken env now token = Inr c \<and> findUnique (c_id c) = Inr (Some u)
        \<and> roles = Some rs \<and> rs \<noteq> [] \<and> u_role u \<notin> set rs \<longrightarrow>
      withAuth env now findUnique request handler roles =
        Inr \<lparr>status = 403,
             body = ErrorEnvelope (''Access denied. Required role: '' @ join '' or '' rs) 403 None,
             res_headers = Map.empty\<rparr>"
    by (simp add: withAuth_bearer forbiddenResponse_def errorResponse_def)
  have pass: "headers request ''authorization'' = Some (lit ''Bearer '' @ token) \<and> token \<noteq> []
        \<and> verifyAccessToken env now token = Inr c \<and> findUnique (c_id c) = Inr (Some u)
        \<and> (roles = None \<or> roles = Some [] \<or> (roles = Some rs \<and> u_role u \<in> set rs)) \<longrightarrow>
      withAuth env now findUnique request handler roles =
        handler (request\<lparr>req_user := Some u\<rparr>)"
    by (auto simp: withAuth_bearer)
  show ?thesis using none bad gone role pass by blast
qed

lemma sample_token_valid:
  "verifyAccessToken sample_env 1000 (generateAccessToken sample_env 0 (sample_identity ident)) =
     Inr (no_claims\<lparr>c_id := Some ident, c_email := Some ''ann@example.org'',
            c_role := Some ''User'', c_type := Some ''access'', c_iat := Some 0,
            c_exp := Some 900, c_aud := Some ''todo-app'', c_iss := Some ''todo-api''\<rparr>)"
  by (simp add: verifyAccessToken_def generateAccessToken_def jwt_verify_signed Let_def
      no_claims_def sample_env_def sample_identity_def)

lemma sample_token_expired:
  "verifyAccessToken sample_env 1000000 (generateAccessToken sample_env 0 (sample_identity ident)) =
     Inl (JsError ''Error'' ''Token has expired'')"
  by (simp add: verifyAccessToken_def generateAccessToken_def jwt_verify_signed Let_def
      no_claims_def sample_env_def sample_identity_def)

lemma sample_token_nonempty: "generateAccessToken env t0 I \<noteq> []"
  by (simp add: generateAccessToken_def jwt_sign_def Let_def)

lemma sample_request_header:
  "headers (sample_request m path [(''authorization'', v)]) ''authorization'' = Some v"
  by (simp add: sample_request_def)

theorem auth_gate_outcomes_witness:
  "withAuth sample_env 1000 sample_store (sample_request ''GET'' ''/api/tasks'' []) sample_handler None
     = Inr \<lparr>status = 401, body = ErrorEnvelope ''No token provided. Please login.'' 401 None,
            res_headers = Map.empty\<rparr>
   \<and> withAuth sample_env 1000000 sample_store
        (sample_request ''GET'' ''/api/tasks''
           [(''authorization'', lit ''Bearer '' @ generateAccessToken sample_env 0 (sample_identity ''u1''))])
        sample_handler None
     = Inr \<lparr>status = 401, body = ErrorEnvelope ''Token has expired'' 401 None,
            res_headers = Map.empty\<rparr>
   \<and> withAuth sample_env 1000 sample_store
        (sample_request ''GET'' ''/api/tasks''
           [(''authorization'', lit ''Bearer '' @ generateAccessToken sample_env 0 (sample_identity ''u3''))])
        sample_handler None
     = Inr \<lparr>status = 401, body = ErrorEnvelope ''User not found. Please login again.'' 401 None,
            res_headers = Map.empty\<rparr>
   \<and> withAuth sample_env 1000 sample_store
        (sample_request ''GET'' ''/api/users''
           [(''authorization'', lit ''Bearer '' @ generateAccessToken sample_env 0 (sample_identity ''u1''))])
        sample_handler (Some [''Admin''])
     = Inr \<lparr>status = 403, body = ErrorEnvelope ''Access denied. Required role: Admin'' 403 None,
            res_headers = Map.empty\<rparr>
   \<and> withAuth sample_env 1000 sample_store
        (sample_request ''GET'' ''/api/tasks''
           [(''authorization'', lit ''Bearer '' @ generateAccessToken sample_env 0 (sample_identity ''u1''))])
        sample_handler (Some [''User'', ''Admin''])
     = Inr \<lparr>status = 200, body = Payload ''u1'', res_headers = Map.empty\<rparr>"
proof -
  let ?tok = "\<lambda>i. generateAccessToken sample_env 0 (sample_identity i)"
  let ?rq = "\<lambda>path i. sample_request ''GET'' path [(''authorization'', lit ''Bearer '' @ ?tok i)]"
  let ?c = "\<lambda>i. no_claims\<lparr>c_id := Some i, c_email := Some ''ann@example.org'',
            c_role := Some ''User'', c_type := Some ''access'', c_iat := Some 0,
            c_exp := Some 900, c_aud := Some ''todo-app'', c_iss := Some ''todo-api''\<rparr>"
  have w1: "withAuth sample_env 1000 sample_store (sample_request ''GET'' ''/api/tasks'' [])
        sample_handler None
     = Inr \<lparr>status = 401, body = ErrorEnvelope ''No token provided. Please login.'' 401 None,
            res_headers = Map.empty\<rparr>"
    using auth_gate_outcomes
      [where request = "sample_request ''GET'' ''/api/tasks'' []" and env = sample_env
         and now = 1000 and findUnique = sample_store and handler = sample_handler
         and roles = None and token = "[]" and e = "JsError [] []" and c = no_claims
         and u = sample_user and rs = "[]", THEN conjunct1]
    by (simp add: sample_request_def)
  have w2: "withAuth sample_env 1000000 sample_store (?rq ''/api/tasks'' ''u1'') sample_handler None
     = Inr \<lparr>status = 401, body = ErrorEnvelope ''Token has expired'' 401 None,
            res_headers = Map.empty\<rparr>"
    using auth_gate_outcomes
      [where request = "?rq ''/api/tasks'' ''u1''" and env = sample_env
         and now = 1000000 and findUnique = sample_store and handler = sample_handler
         and roles = None and token = "?tok ''u1''"
         and e = "JsError ''Error'' ''Token has expired''" and c = no_claims
         and u = sample_user and rs = "[]", THEN conjunct2, THEN conjunct1]
    by (simp add: sample_request_header sample_token_nonempty sample_token_expired)
  have w3: "withAuth sample_env 1000 sample_store (?rq ''/api/tasks'' ''u3'') sample_handler None
     = Inr \<lparr>status = 401, body = ErrorEnvelope ''User not found. Please login again.'' 401 None,
            res_headers = Map.empty\<rparr>"
    using auth_gate_outcomes
      [where request = "?rq ''/api/tasks'' ''u3''" and env = sample_env
         and now = 1000 and findUnique = sample_store and handler = sample_handler
         and roles = None and token = "?tok ''u3''"
         and e = "JsError [] []" and c = "?c ''u3''"
         and u = sample_user and rs = "[]", THEN conjunct2, THEN conjunct2, THEN conjunct1]
    by (simp add: sample_request_header sample_token_nonempty sample_token_valid
        sample_store_def no_claims_def)
  have w4: "withAuth sample_env 1000 sample_store (?rq ''/api/users'' ''u1'') sample_handler
        (Some [''Admin''])
     = Inr \<lparr>status = 403, body = ErrorEnvelope ''Access denied. Required role: Admin'' 403 None,
            res_headers = Map.empty\<rparr>"
    using auth_gate_outcomes
      [where request = "?rq ''/api/users'' ''u1''" and env = sample_env
         and now = 1000 and findUnique = sample_store and handler = sample_handler
         and roles = "Some [''Admin'']" and token = "?tok ''u1''"
         and e = "JsError [] []" and c = "?c ''u1''"
         and u = sample_user and rs = "[''Admin'']",
       THEN conjunct2, THEN conjunct2, THEN conjunct2, THEN conjunct1]
    by (simp add: sample_request_header sample_token_nonempty sample_token_valid
        sample_store_def sample_user_def no_claims_def)
  have w5: "withAuth sample_env 1000 sample_store (?rq ''/api/tasks'' ''u1'') sample_handler
        (Some [''User'', ''Admin''])
     = Inr \<lparr>status = 200, body = Payload ''u1'', res_headers = Map.empty\<rparr>"
    using auth_gate_outcomes
      [where request = "?rq ''/api/tasks'' ''u1''" and env = sample_env
         and now = 1000 and findUnique = sample_store and handler = sample_handler
         and roles = "Some [''User'', ''Admin'']" and token = "?tok ''u1''"
         and e = "JsError [] []" and c = "?c ''u1''"
         and u = sample_user and rs = "[''User'', ''Admin'']",
       THEN conjunct2, THEN conjunct2, THEN conjunct2, THEN conjunct2]
    by (simp add: sample_request_header sample_token_nonempty sample_token_valid
        sample_store_def sample_user_def no_claims_def sample_handler_def sample_request_def)
  show ?thesis using w1 w2 w3 w4 w5 by blast
qed

text \<open>
  C6. When the identity-store lookup throws for a request with a valid bearer token,
  \<^verbatim>\<open>withAuth\<close> answers 401 with the message \<^verbatim>\<open>Authentication failed\<close>: the error
  does not propagate, the answer is not a 500, and the result is the same for every
  handler, so the handler's result is not part of it.
\<close>

theorem auth_gate_store_failure:
  assumes "headers request ''authorization'' = Some (lit ''Bearer '' @ token)" and "token \<noteq> []"
    and "verifyAccessToken env now token = Inr c"
    and "findUnique (c_id c) = Inl e"
  shows "\<forall>handler. withAuth env now findUnique request handler roles =
      Inr \<lparr>status = 401, body = ErrorEnvelope ''Authentication failed'' 401 None,
           res_headers = Map.empty\<rparr>"
  using assms(3,4)
  by (simp add: withAuth_bearer [OF assms(1,2)] unauthorizedResponse_def errorResponse_def)

theorem auth_gate_store_failure_witness:
  "headers (sample_request ''GET'' ''/api/tasks''
        [(''authorization'', lit ''Bearer '' @ generateAccessToken sample_env 0 (sample_identity ''u2''))])
      ''authorization''
     = Some (lit ''Bearer '' @ generateAccessToken sample_env 0 (sample_identity ''u2''))
   \<and> generateAccessToken sample_env 0 (sample_identity ''u2'') \<noteq> []
   \<and> map_sum id c_id
        (verifyAccessToken sample_env 1000 (generateAccessToken sample_env 0 (sample_identity ''u2'')))
       = Inr (Some ''u2'')
   \<and> sample_store (Some ''u2'')
       = Inl (JsError ''PrismaClientInitializationError'' ''cannot reach the database'')
   \<and> withAuth sample_env 1000 sample_store
        (sample_request ''GET'' ''/api/tasks''
           [(''authorization'', lit ''Bearer '' @ generateAccessToken sample_env 0 (sample_identity ''u2''))])
        sample_handler None
     = Inr \<lparr>status = 401, body = ErrorEnvelope ''Authentication failed'' 401 None,
            res_headers = Map.empty\<rparr>"
proof -
  let ?tok = "generateAccessToken sample_env 0 (sample_identity ''u2'')"
  let ?rq = "sample_request ''GET'' ''/api/tasks'' [(''authorization'', lit ''Bearer '' @ ?tok)]"
  let ?c = "no_claims\<lparr>c_id := Some ''u2'', c_email := Some ''ann@example.org'',
            c_role := Some ''User'', c_type := Some ''access'', c_iat := Some 0,
            c_exp := Some 900, c_aud := Some ''todo-app'', c_iss := Some ''todo-api''\<rparr>"
  have h1: "headers ?rq ''authorization'' = Some (lit ''Bearer '' @ ?tok)"
    by (rule sample_request_header)
  have h2: "?tok \<noteq> []" by (rule sample_token_nonempty)
  have h3: "verifyAccessToken sample_env 1000 ?tok = Inr ?c" by (rule sample_token_valid)
  have h4: "sample_store (c_id ?c)
      = Inl (JsError ''PrismaClientInitializationError'' ''cannot reach the database'')"
    by (simp add: sample_store_def no_claims_def)
  have h4': "sample_store (Some ''u2'')
      = Inl (JsError ''PrismaClientInitializationError'' ''cannot reach the database'')"
    by (simp add: sample_store_def)
  have h3': "map_sum id c_id (verifyAccessToken sample_env 1000 ?tok) = Inr (Some ''u2'')"
    by (simp add: h3 no_claims_def)
  have r: "withAuth sample_env 1000 sample_store ?rq sample_handler None
     = Inr \<lparr>status = 401, body = ErrorEnvelope ''Authentication failed'' 401 None,
            res_headers = Map.empty\<rparr>"
    using auth_gate_store_failure [where findUnique = sample_store and roles = None and c = ?c, OF h1 h2 h3 h4] by blast
  show ?thesis using h1 h2 h3' h4' r by blast
qed

section \<open>The edge middleware\<close>

lemma regex_test_dotstar: "regex_test ''.*'' s = (\<forall>c\<in>set s. \<not> line_terminator c)"
  by (induction s) auto

lemma regex_test_literal_prefix:
  "CHR ''.'' \<notin> set pre \<Longrightarrow>
   regex_test (pre @ ''.*'') s =
     (startsWith s pre \<and> (\<forall>c\<in>set (drop (length pre) s). \<not> line_terminator c))"
proof (induction pre arbitrary: s)
  case Nil
  then show ?case by (simp add: regex_test_dotstar startsWith_Nil)
next
  case (Cons p pre)
  obtain q ps where qps: "pre @ ''.*'' = q # ps" by (cases pre) auto
  have pd: "p \<noteq> CHR ''.''" using Cons.prems by auto
  show ?case
  proof (cases s)
    case Nil
    then show ?thesis using pd by (simp add: qps startsWith_Nil)
  next
    case (Cons c cs)
    have "regex_test ((p # pre) @ ''.*'') (c # cs) = (c = p \<and> regex_test (pre @ ''.*'') cs)"
      using pd by (simp add: qps atom_matches_def)
    then show ?thesis
      using Cons.IH [of cs] Cons.prems Cons by (simp add: startsWith_Cons)
  qed
qed

lemma matches_public:
  "matchesPattern path ROUTE_CONFIG_public =
     (path = ''/api/auth/register'' \<or> path = ''/api/auth/login'' \<or> path = ''/api/auth/refresh'')"
  by (simp add: matchesPattern_def ROUTE_CONFIG_public_def startsWith_Cons startsWith_Nil)

lemma matches_adminOnly:
  "matchesPattern path ROUTE_CONFIG_adminOnly =
     (path = ''/api/users'' \<or>
      (startsWith path ''/api/users/''
         \<and> (\<forall>c\<in>set (drop (length ''/api/users/'') path). \<not> line_terminator c)))"
  using regex_test_literal_prefix [of "''/api/users/''" path]
  by (simp add: matchesPattern_def ROUTE_CONFIG_adminOnly_def startsWith_Cons startsWith_Nil)

lemma matches_protected:
  "matchesPattern path ROUTE_CONFIG_protected =
     (path = ''/api/tasks'' \<or>
      (startsWith path ''/api/tasks/''
         \<and> (\<forall>c\<in>set (drop (length ''/api/tasks/'') path). \<not> line_terminator c)))"
  using regex_test_literal_prefix [of "''/api/tasks/''" path]
  by (simp add: matchesPattern_def ROUTE_CONFIG_protected_def startsWith_Cons startsWith_Nil)

lemma tasks_family_protected:
  assumes "startsWith path ''/api/tasks/''" and "\<forall>c\<in>set path. \<not> line_terminator c"
  shows "getRouteType path = Protected"
proof -
  obtain t where t: "path = ''/api/tasks/'' @ t"
    using assms(1) unfolding startsWith_iff ..
  have np: "\<not> matchesPattern path ROUTE_CONFIG_public"
    by (simp add: matches_public t)
  have na: "\<not> matchesPattern path ROUTE_CONFIG_adminOnly"
    by (simp add: matches_adminOnly t startsWith_Cons)
  have "\<forall>c\<in>set (drop (length ''/api/tasks/'') path). \<not> line_terminator c"
    using assms(2) by (meson in_set_dropD)
  then have p: "matchesPattern path ROUTE_CONFIG_protected"
    using assms(1) by (simp add: matches_protected)
  show ?thesis using np na p by (simp add: getRouteType_def)
qed

lemma middleware_verified:
  assumes "getRouteType (pathname request) \<noteq> Public"
    and "headers request ''authorization'' = Some (lit ''Bearer '' @ token)"
    and "verifyTokenEdge secret now token = Inr p"
  shows "middleware secret now request =
     (if getRouteType (pathname request) = AdminOnly \<and> decoded_role p \<noteq> ''Admin'' then
        Respond (edgeErrorResponse ''Access denied. Admin role required.'' 403)
      else if req_method request = ''DELETE'' \<and> startsWith (pathname request) ''/api/tasks/''
              \<and> decoded_role p \<noteq> ''Admin'' then
        Respond (edgeErrorResponse ''Access denied. Only Admin can delete tasks.'' 403)
      else
        Next (set_request_header
               (set_request_header
                 (set_request_header request ''x-user-id'' (js_or (c_id p) (c_sub p)))
                 ''x-user-email'' (js_or (c_email p) None))
               ''x-user-role'' (Some (decoded_role p))))"
  using assms
  by (simp add: middleware_def Let_def truthy_def startsWith_def substring_def)

text \<open>
  C7. The edge middleware. The role it reads from a verified token is
  \<^verbatim>\<open>decoded_role\<close>: the \<^verbatim>\<open>role\<close> claim, else the \<^verbatim>\<open>roles\<close> claim, else
  \<^verbatim>\<open>User\<close>. (1) A request whose path is classified public goes on unchanged, with
  or without a token. (2) \<^verbatim>\<open>/api/auth/login\<close> is public and \<^verbatim>\<open>/api/users\<close> is
  adminOnly. (3) A request to an adminOnly path with a verified bearer token whose
  role, read that way, is not \<^verbatim>\<open>Admin\<close> is answered 403. (4) A DELETE request to a
  path under \<^verbatim>\<open>/api/tasks/\<close> (a URL path has no line terminator) with such a token
  is answered 403, although the path is classified protected.
\<close>

theorem edge_gate_rules:
  "(getRouteType (pathname request) = Public \<longrightarrow> middleware secret now request = Next request)
   \<and> getRouteType ''/api/auth/login'' = Public
   \<and> getRouteType ''/api/users'' = AdminOnly
   \<and> (headers request ''authorization'' = Some (lit ''Bearer '' @ token)
        \<and> verifyTokenEdge secret now token = Inr p \<and> decoded_role p \<noteq> ''Admin''
        \<and> getRouteType (pathname request) = AdminOnly \<longrightarrow>
        middleware secret now request =
          Respond \<lparr>status = 403,
                   body = ErrorEnvelope ''Access denied. Admin role required.'' 403 None,
                   res_headers = Map.empty\<rparr>)
   \<and> (headers request ''authorization'' = Some (lit ''Bearer '' @ token)
        \<and> verifyTokenEdge secret now token = Inr p \<and> decoded_role p \<noteq> ''Admin''
        \<and> req_method request = ''DELETE'' \<and> startsWith (pathname request) ''/api/tasks/''
        \<and> (\<forall>c\<in>set (pathname request). \<not> line_terminator c) \<longrightarrow>
        getRouteType (pathname request) = Protected
        \<and> middleware secret now request =
            Respond \<lparr>status = 403,
                     body = ErrorEnvelope ''Access denied. Only Admin can delete tasks.'' 403 None,
                     res_headers = Map.empty\<rparr>)"
proof -
  have a: "getRouteType (pathname request) = Public \<longrightarrow> middleware secret now request = Next request"
    by (simp add: middleware_def)
  have b: "getRouteType ''/api/auth/login'' = Public"
    by (simp add: getRouteType_def matches_public)
  have c: "getRouteType ''/api/users'' = AdminOnly"
    by (simp add: getRouteType_def matches_public matches_adminOnly)
  have d: "headers request ''authorization'' = Some (lit ''Bearer '' @ token)
        \<and> verifyTokenEdge secret now token = Inr p \<and> decoded_role p \<noteq> ''Admin''
        \<and> getRouteType (pathname request) = AdminOnly \<longrightarrow>
        middleware secret now request =
          Respond \<lparr>status = 403,
                   body = ErrorEnvelope ''Access denied. Admin role required.'' 403 None,
                   res_headers = Map.empty\<rparr>"
    by (simp add: middleware_verified edgeErrorResponse_def)
  have e: "headers request ''authorization'' = Some (lit ''Bearer '' @ token)
        \<and> verifyTokenEdge secret now token = Inr p \<and> decoded_role p \<noteq> ''Admin''
        \<and> req_method request = ''DELETE'' \<and> startsWith (pathname request) ''/api/tasks/''
        \<and> (\<forall>c\<in>set (pathname request). \<not> line_terminator c) \<longrightarrow>
        getRouteType (pathname request) = Protected
        \<and> middleware secret now request =
            Respond \<lparr>status = 403,
                     body = ErrorEnvelope ''Access denied. Only Admin can delete tasks.'' 403 None,
                     res_headers = Map.empty\<rparr>"
    using tasks_family_protected [of "pathname request"]
    by (simp add: middleware_verified edgeErrorResponse_def)
  show ?thesis using a b c d e by blast
qed

lemma sample_token_edge_valid:
  "verifyTokenEdge ''access-secret'' 1000 (generateAccessToken sample_env 0 (sample_identity ident)) =
     Inr (no_claims\<lparr>c_id := Some ident, c_email := Some ''ann@example.org'',
            c_role := Some ''User'', c_type := Some ''access'', c_iat := Some 0,
            c_exp := Some 900, c_aud := Some ''todo-app'', c_iss := Some ''todo-api''\<rparr>)"
  by (simp add: verifyTokenEdge_def jose_jwtVerify_def generateAccessToken_def jwt_sign_def
      decode_compact_def Let_def no_claims_def sample_env_def sample_identity_def)

theorem edge_gate_rules_witness:
  "middleware ''access-secret'' 1000 (sample_request ''POST'' ''/api/auth/login'' [])
     = Next (sample_request ''POST'' ''/api/auth/login'' [])
   \<and> middleware ''access-secret'' 1000
        (sample_request ''GET'' ''/api/users''
           [(''authorization'', lit ''Bearer '' @ generateAccessToken sample_env 0 (sample_identity ''u1''))])
     = Respond \<lparr>status = 403, body = ErrorEnvelope ''Access denied. Admin role required.'' 403 None,
                res_headers = Map.empty\<rparr>
   \<and> getRouteType ''/api/tasks/42'' = Protected
   \<and> middleware ''access-secret'' 1000
        (sample_request ''DELETE'' ''/api/tasks/42''
           [(''authorization'', lit ''Bearer '' @ generateAccessToken sample_env 0 (sample_identity ''u1''))])
     = Respond \<lparr>status = 403,
                body = ErrorEnvelope ''Access denied. Only Admin can delete tasks.'' 403 None,
                res_headers = Map.empty\<rparr>"
proof -
  let ?tok = "generateAccessToken sample_env 0 (sample_identity ''u1'')"
  let ?c = "no_claims\<lparr>c_id := Some ''u1'', c_email := Some ''ann@example.org'',
            c_role := Some ''User'', c_type := Some ''access'', c_iat := Some 0,
            c_exp := Some 900, c_aud := Some ''todo-app'', c_iss := Some ''todo-api''\<rparr>"
  let ?r1 = "sample_request ''POST'' ''/api/auth/login'' []"
  let ?r2 = "sample_request ''GET'' ''/api/users'' [(''authorization'', lit ''Bearer '' @ ?tok)]"
  let ?r3 = "sample_request ''DELETE'' ''/api/tasks/42'' [(''authorization'', lit ''Bearer '' @ ?tok)]"
  have role: "decoded_role ?c \<noteq> ''Admin''"
    by (simp add: decoded_role_def truthy_def no_claims_def)
  have nolt: "\<forall>c\<in>set ''/api/tasks/42''. \<not> line_terminator c"
    by (simp add: line_terminator_def)
  have w1: "middleware ''access-secret'' 1000 ?r1 = Next ?r1"
    using edge_gate_rules
      [where request = ?r1 and secret = "''access-secret''" and now = 1000 and token = "[]"
         and p = no_claims, THEN conjunct1]
      edge_gate_rules
      [where request = ?r1 and secret = "''access-secret''" and now = 1000 and token = "[]"
         and p = no_claims, THEN conjunct2, THEN conjunct1]
    by (simp add: sample_request_def)
  have w2: "middleware ''access-secret'' 1000 ?r2
     = Respond \<lparr>status = 403, body = ErrorEnvelope ''Access denied. Admin role required.'' 403 None,
                res_headers = Map.empty\<rparr>"
    using edge_gate_rules
      [where request = ?r2 and secret = "''access-secret''" and now = 1000 and token = ?tok
         and p = ?c, THEN conjunct2, THEN conjunct2, THEN conjunct2, THEN conjunct1]
      edge_gate_rules
      [where request = ?r2 and secret = "''access-secret''" and now = 1000 and token = ?tok
         and p = ?c, THEN conjunct2, THEN conjunct2, THEN conjunct1]
      role
    by (simp add: sample_request_def sample_token_edge_valid)
  have w3: "getRouteType ''/api/tasks/42'' = Protected
     \<and> middleware ''access-secret'' 1000 ?r3
     = Respond \<lparr>status = 403,
                body = ErrorEnvelope ''Access denied. Only Admin can delete tasks.'' 403 None,
                res_headers = Map.empty\<rparr>"
    using edge_gate_rules
      [where request = ?r3 and secret = "''access-secret''" and now = 1000 and token = ?tok
         and p = ?c, THEN conjunct2, THEN conjunct2, THEN conjunct2, THEN conjunct2]
      role nolt
    by (simp add: sample_request_def sample_token_edge_valid startsWith_Cons startsWith_Nil)
  show ?thesis using w1 w2 w3 by blast
qed

text \<open>
  C7 as stated speaks of the \<^verbatim>\<open>role\<close> claim alone. A verified token with no
  \<^verbatim>\<open>role\<close> claim and the \<^verbatim>\<open>roles\<close> claim \<^verbatim>\<open>Admin\<close> passes the adminOnly path
  \<^verbatim>\<open>/api/users\<close> and may DELETE under \<^verbatim>\<open>/api/tasks/\<close>: the request goes on, with
  the header x-user-role set to \<^verbatim>\<open>Admin\<close>.
\<close>

theorem edge_gate_roles_claim_admits:
  "c_role sample_roles_claims \<noteq> Some ''Admin''
   \<and> getRouteType ''/api/users'' = AdminOnly
   \<and> verifyTokenEdge ''access-secret'' 1000 sample_roles_token = Inr sample_roles_claims
   \<and> middleware ''access-secret'' 1000
        (sample_request ''GET'' ''/api/users''
           [(''authorization'', lit ''Bearer '' @ sample_roles_token)])
      = Next (sample_request ''GET'' ''/api/users''
           [(''x-user-role'', lit ''Admin''), (''x-user-id'', lit ''u9''),
            (''authorization'', lit ''Bearer '' @ sample_roles_token)])
   \<and> getRouteType ''/api/tasks/42'' = Protected
   \<and> middleware ''access-secret'' 1000
        (sample_request ''DELETE'' ''/api/tasks/42''
           [(''authorization'', lit ''Bearer '' @ sample_roles_token)])
      = Next (sample_request ''DELETE'' ''/api/tasks/42''
           [(''x-user-role'', lit ''Admin''), (''x-user-id'', lit ''u9''),
            (''authorization'', lit ''Bearer '' @ sample_roles_token)])"
proof -
  let ?hs = "[(''authorization'', lit ''Bearer '' @ sample_roles_token)]"
  have nr: "c_role sample_roles_claims \<noteq> Some ''Admin''"
    by (simp add: sample_roles_claims_def no_claims_def)
  have r: "getRouteType ''/api/users'' = AdminOnly"
    by (simp add: getRouteType_def matches_public matches_adminOnly)
  have r': "getRouteType ''/api/tasks/42'' = Protected"
    by (rule tasks_family_protected) (simp_all add: startsWith_Cons startsWith_Nil line_terminator_def)
  have v: "verifyTokenEdge ''access-secret'' 1000 sample_roles_token = Inr sample_roles_claims"
    by (simp add: verifyTokenEdge_def jose_jwtVerify_def decode_compact_def Let_def
        sample_roles_token_def sample_roles_claims_def no_claims_def)
  have dr: "decoded_role sample_roles_claims = ''Admin''"
    by (simp add: decoded_role_def truthy_def sample_roles_claims_def no_claims_def)
  have ids: "js_or (c_id sample_roles_claims) (c_sub sample_roles_claims) = Some ''u9''"
    "js_or (c_email sample_roles_claims) None = None"
    by (simp_all add: js_or_def truthy_def sample_roles_claims_def no_claims_def)
  have hdrs: "set_request_header
       (set_request_header
         (set_request_header (sample_request m path ?hs) ''x-user-id'' (Some ''u9''))
         ''x-user-email'' None)
       ''x-user-role'' (Some ''Admin'')
     = sample_request m path
         ((''x-user-role'', lit ''Admin'') # (''x-user-id'', lit ''u9'') # ?hs)" for m path
    by (simp add: set_request_header_def truthy_def sample_request_def fun_eq_iff)
  let ?rq1 = "sample_request ''GET'' ''/api/users'' ?hs"
  let ?rq2 = "sample_request ''DELETE'' ''/api/tasks/42'' ?hs"
  have f1: "pathname ?rq1 = ''/api/users''" "req_method ?rq1 = ''GET''"
    "headers ?rq1 ''authorization'' = Some (lit ''Bearer '' @ sample_roles_token)"
    by (simp_all add: sample_request_def)
  have f2: "pathname ?rq2 = ''/api/tasks/42''" "req_method ?rq2 = ''DELETE''"
    "headers ?rq2 ''authorization'' = Some (lit ''Bearer '' @ sample_roles_token)"
    by (simp_all add: sample_request_def)
  have g1: "getRouteType (pathname ?rq1) \<noteq> Public" unfolding f1(1) r by simp
  have g2: "getRouteType (pathname ?rq2) \<noteq> Public" unfolding f2(1) r' by simp
  have m1: "middleware ''access-secret'' 1000 ?rq1
      = Next (sample_request ''GET'' ''/api/users''
           ((''x-user-role'', lit ''Admin'') # (''x-user-id'', lit ''u9'') # ?hs))"
    unfolding middleware_verified [OF g1 f1(3) v] f1(1,2) r dr ids hdrs by simp
  have m2: "middleware ''access-secret'' 1000 ?rq2
      = Next (sample_request ''DELETE'' ''/api/tasks/42''
           ((''x-user-role'', lit ''Admin'') # (''x-user-id'', lit ''u9'') # ?hs))"
    unfolding middleware_verified [OF g2 f2(3) v] f2(1,2) r' dr ids hdrs by simp
  show ?thesis using nr r r' v m1 m2 by simp
qed

text \<open>
  C9. A path that matches none of the public, adminOnly and protected patterns is
  classified public, and a request to it goes on unchanged whatever its method and
  whether or not it carries a token: the fallback of the classifier is to admit.
\<close>

theorem edge_gate_default_public:
  assumes "\<not> matchesPattern (pathname request) ROUTE_CONFIG_public"
    and "\<not> matchesPattern (pathname request) ROUTE_CONFIG_adminOnly"
    and "\<not> matchesPattern (pathname request) ROUTE_CONFIG_protected"
  shows "getRouteType (pathname request) = Public \<and> middleware secret now request = Next request"
  using assms by (simp add: getRouteType_def middleware_def)

theorem edge_gate_default_public_witness:
  "\<not> matchesPattern (pathname (sample_request ''DELETE'' ''/api/admin/purge'' [])) ROUTE_CONFIG_public
   \<and> \<not> matchesPattern (pathname (sample_request ''DELETE'' ''/api/admin/purge'' [])) ROUTE_CONFIG_adminOnly
   \<and> \<not> matchesPattern (pathname (sample_request ''DELETE'' ''/api/admin/purge'' [])) ROUTE_CONFIG_protected
   \<and> getRouteType (pathname (sample_request ''DELETE'' ''/api/admin/purge'' [])) = Public
   \<and> middleware ''access-secret'' 1000 (sample_request ''DELETE'' ''/api/admin/purge'' [])
       = Next (sample_request ''DELETE'' ''/api/admin/purge'' [])"
proof -
  let ?r = "sample_request ''DELETE'' ''/api/admin/purge'' []"
  have p: "pathname ?r = ''/api/admin/purge''" by (simp add: sample_request_def)
  have h1: "\<not> matchesPattern (pathname ?r) ROUTE_CONFIG_public"
    unfolding p by (simp add: matches_public)
  have h2: "\<not> matchesPattern (pathname ?r) ROUTE_CONFIG_adminOnly"
    unfolding p by (simp add: matches_adminOnly startsWith_Cons)
  have h3: "\<not> matchesPattern (pathname ?r) ROUTE_CONFIG_protected"
    unfolding p by (simp add: matches_protected startsWith_Cons)
  show ?thesis
    using h1 h2 h3 edge_gate_default_public [OF h1 h2 h3, where secret = "''access-secret''" and now = 1000]
    by blast
qed

end
